theory Spec2Isabelle
  imports Complex_Main "HOL-Library.Char_ord" "HOL-Library.List_Lexorder" "HOL-Library.Sublist"
begin

section \<open>Python values used by the trainer\<close>

text \<open>
  The development embeds \<^verbatim>\<open>training/trainers/base_trainer.py\<close> (class
  \<^verbatim>\<open>BaseTrainer\<close>). Python floats are modelled by their values: the two infinities, the
  finite values (as reals; comparison of floats is exact on the represented values) and
  NaN, which compares false with everything.
\<close>

datatype pyfloat = NegInf | Finite real | PosInf | NaN

fun flt_lt :: "pyfloat \<Rightarrow> pyfloat \<Rightarrow> bool" where
  "flt_lt NaN _ = False"
| "flt_lt _ NaN = False"
| "flt_lt _ NegInf = False"
| "flt_lt NegInf _ = True"
| "flt_lt PosInf _ = False"
| "flt_lt (Finite x) (Finite y) = (x < y)"
| "flt_lt (Finite x) PosInf = True"

definition flt_le :: "pyfloat \<Rightarrow> pyfloat \<Rightarrow> bool" where
  "flt_le a b = (flt_lt a b \<or> a = b)"

type_synonym blob = nat
type_synonym stats = "(int \<times> real) list"

text \<open>The values a checkpoint dictionary holds. Blob 0 stands for an empty state dict.\<close>

datatype pyval =
    VNone
  | VBool bool
  | VInt int
  | VFloat pyfloat
  | VStr string
  | VBlob blob
  | VStats stats

fun truthy :: "pyval \<Rightarrow> bool" where
  "truthy VNone = False"
| "truthy (VBool b) = b"
| "truthy (VInt n) = (n \<noteq> 0)"
| "truthy (VFloat f) = (f \<noteq> Finite 0)"
| "truthy (VStr s) = (s \<noteq> [])"
| "truthy (VBlob b) = (b \<noteq> 0)"
| "truthy (VStats s) = (s \<noteq> [])"

text \<open>
  The exceptions. \<open>FileExistsError\<close> is the one \<^verbatim>\<open>os.makedirs\<close> tells apart; \<open>OSError\<close>
  stands for any other \<^verbatim>\<open>OSError\<close> of the \<^verbatim>\<open>os\<close> functions (\<^verbatim>\<open>FileNotFoundError\<close>,
  \<^verbatim>\<open>NotADirectoryError\<close>, \<^verbatim>\<open>IsADirectoryError\<close> are subclasses of it).
  \<open>TorchSaveError\<close> and \<open>TorchLoadError\<close> stand for whatever \<^verbatim>\<open>torch.save\<close> and
  \<^verbatim>\<open>torch.load\<close> raise (the class depends on the version of the library).
  \<open>NoCheckpointFound\<close> is \<^verbatim>\<open>Exception('No checkpoint found')\<close>, and \<open>EpochFailure n\<close> is
  the exception of the \<open>n\<close>-th call of \<^verbatim>\<open>train_epoch\<close>.

  \<open>Unmodelled\<close> is not an exception of Python: it is the result of the embedding on
  an input where it does not follow the code (a glob pattern with metacharacters the
  embedding does not interpret, \<^verbatim>\<open>~user\<close>, a checkpoint value whose type the typed
  trainer cannot hold, the rename of a directory). Nothing catches it.
\<close>

datatype error =
    AttributeError
  | AssertionError
  | KeyError string
  | TypeError
  | NoCheckpointFound
  | FileExistsError
  | OSError
  | TorchSaveError
  | TorchLoadError
  | EpochFailure nat
  | Unmodelled

section \<open>String formatting\<close>

text \<open>
  \<^verbatim>\<open>'{:04d}'.format(n)\<close>: the decimal digits of \<open>n\<close>, padded with zeros on the left to
  width 4; for a negative number the sign comes first and counts in the width. A number
  with more digits is printed in full.
\<close>

definition digit_char :: "nat \<Rightarrow> char" where
  "digit_char d = char_of (48 + d)"

fun dec_digits :: "nat \<Rightarrow> string" where
  "dec_digits n = (if n < 10 then [digit_char n] else dec_digits (n div 10) @ [digit_char (n mod 10)])"

declare dec_digits.simps [simp del]

definition zero_pad :: "nat \<Rightarrow> string \<Rightarrow> string" where
  "zero_pad w s = replicate (w - length s) (CHR ''0'') @ s"

definition fmt04d :: "int \<Rightarrow> string" where
  "fmt04d n = (if 0 \<le> n then zero_pad 4 (dec_digits (nat n))
               else CHR ''-'' # zero_pad 3 (dec_digits (nat (- n))))"

text \<open>\<^verbatim>\<open>'{}'.format(x)\<close> for an optional string: \<^verbatim>\<open>None\<close> prints as \<^verbatim>\<open>'None'\<close>.\<close>

fun fmt_opt :: "string option \<Rightarrow> string" where
  "fmt_opt None = ''None''"
| "fmt_opt (Some s) = s"

text \<open>\<^verbatim>\<open>a in b\<close> on strings: \<open>a\<close> occurs in \<open>b\<close> as a contiguous substring.\<close>

fun str_in :: "string \<Rightarrow> string \<Rightarrow> bool" where
  "str_in a [] = (a = [])"
| "str_in a (c # cs) = (prefix a (c # cs) \<or> str_in a cs)"

section \<open>Path strings\<close>

text \<open>
  \<^verbatim>\<open>posixpath.split\<close>: the tail is what follows the last slash; the head is what
  precedes it, without its trailing slashes unless it consists of slashes only.
  \<^verbatim>\<open>posixpath.join\<close> of two strings, and \<^verbatim>\<open>posixpath.expanduser\<close> when \<^verbatim>\<open>HOME\<close> is set
  (to \<open>home\<close>); the form \<^verbatim>\<open>~user\<close> reads the password database and is not modelled.
\<close>

definition rstrip_slash :: "string \<Rightarrow> string" where
  "rstrip_slash s = rev (dropWhile (\<lambda>c. c = CHR ''/'') (rev s))"

definition path_tail :: "string \<Rightarrow> string" where
  "path_tail p = rev (takeWhile (\<lambda>c. c \<noteq> CHR ''/'') (rev p))"

definition path_head :: "string \<Rightarrow> string" where
  "path_head p =
     (let head = take (length p - length (path_tail p)) p
      in if rstrip_slash head = [] then head else rstrip_slash head)"

definition os_path_split :: "string \<Rightarrow> string \<times> string" where
  "os_path_split p = (path_head p, path_tail p)"

definition os_path_join :: "string \<Rightarrow> string \<Rightarrow> string" where
  "os_path_join a b =
     (if b \<noteq> [] \<and> hd b = CHR ''/'' then b
      else if a = [] \<or> last a = CHR ''/'' then a @ b
      else a @ ''/'' @ b)"

definition expanduser :: "string \<Rightarrow> string \<Rightarrow> string option" where
  "expanduser home p =
     (if p = [] \<or> hd p \<noteq> CHR ''~'' then Some p
      else if tl p = [] \<or> hd (tl p) = CHR ''/'' then
        (let r = rstrip_slash home @ tl p in Some (if r = [] then ''/'' else r))
      else None)"

section \<open>The file system\<close>

text \<open>
  The store holds the directories and the regular files by their paths from the root
  (lists of names), and the working directory of the process. There are no symbolic
  links and no permissions. A regular file holds either a complete pickled checkpoint
  dictionary or the partial bytes of a write that has not finished. A checkpoint
  dictionary is an association list of keys to values, in insertion order.
\<close>

type_synonym ckpt = "(string \<times> pyval) list"

datatype content = Partial | Complete ckpt

datatype node = Dir | File content

type_synonym path = "string list"

record fs =
  cwd :: path
  entries :: "(path \<times> node) list"

text \<open>The node at a path from the root; the root is a directory.\<close>

definition node_of :: "(path \<times> node) list \<Rightarrow> path \<Rightarrow> node option" where
  "node_of es k = (if k = [] then Some Dir else map_of es k)"

text \<open>\<^verbatim>\<open>p.split('/')\<close>; the characters of the current piece are gathered in reverse.\<close>

fun split_acc :: "char \<Rightarrow> string \<Rightarrow> string \<Rightarrow> string list" where
  "split_acc c acc [] = [rev acc]"
| "split_acc c acc (x # xs) =
     (if x = c then rev acc # split_acc c [] xs else split_acc c (x # acc) xs)"

definition split_on :: "char \<Rightarrow> string \<Rightarrow> string list" where
  "split_on c s = split_acc c [] s"

text \<open>
  Path resolution: the components of the path string are followed one by one from the
  root (for a path that starts with a slash) or from the working directory. A component
  is looked up in a directory only: when the place reached so far is not a directory
  the resolution fails. An empty component and \<^verbatim>\<open>.\<close> stay, \<^verbatim>\<open>..\<close> goes to the parent
  (the root is its own parent). The result is the path from the root of the place
  reached, which may not exist. The empty string resolves to nothing.
\<close>

fun walk :: "(path \<times> node) list \<Rightarrow> path \<Rightarrow> string list \<Rightarrow> path option" where
  "walk es cur [] = Some cur"
| "walk es cur (c # cs) =
     (if node_of es cur \<noteq> Some Dir then None
      else if c = [] \<or> c = ''.'' then walk es cur cs
      else if c = ''..'' then walk es (butlast cur) cs
      else walk es (cur @ [c]) cs)"

definition locate :: "fs \<Rightarrow> string \<Rightarrow> path option" where
  "locate fs p =
     (if p = [] then None
      else walk (entries fs) (if hd p = CHR ''/'' then [] else cwd fs) (split_on CHR ''/'' p))"

definition lookup :: "fs \<Rightarrow> string \<Rightarrow> node option" where
  "lookup fs p = (case locate fs p of None \<Rightarrow> None | Some k \<Rightarrow> node_of (entries fs) k)"

definition fs_put :: "path \<Rightarrow> node \<Rightarrow> fs \<Rightarrow> fs" where
  "fs_put k n fs = fs\<lparr>entries := (k, n) # filter (\<lambda>e. fst e \<noteq> k) (entries fs)\<rparr>"

definition fs_del :: "path \<Rightarrow> fs \<Rightarrow> fs" where
  "fs_del k fs = fs\<lparr>entries := filter (\<lambda>e. fst e \<noteq> k) (entries fs)\<rparr>"

text \<open>\<^verbatim>\<open>os.path.exists\<close> and \<^verbatim>\<open>os.path.isdir\<close>.\<close>

definition os_exists :: "fs \<Rightarrow> string \<Rightarrow> bool" where
  "os_exists fs p = (lookup fs p \<noteq> None)"

definition os_isdir :: "fs \<Rightarrow> string \<Rightarrow> bool" where
  "os_isdir fs p = (lookup fs p = Some Dir)"

text \<open>\<^verbatim>\<open>os.mkdir\<close>: trailing slashes of the new directory's path are allowed.\<close>

definition os_mkdir :: "string \<Rightarrow> fs \<Rightarrow> error option \<times> fs" where
  "os_mkdir p fs =
     (case locate fs (if rstrip_slash p = [] then p else rstrip_slash p) of
        None \<Rightarrow> (Some OSError, fs)
      | Some k \<Rightarrow>
          (if node_of (entries fs) k \<noteq> None then (Some FileExistsError, fs)
           else (None, fs_put k Dir fs)))"

text \<open>
  \<^verbatim>\<open>os.makedirs(name)\<close> (with \<^verbatim>\<open>exist_ok=False\<close>), as the library defines it: the head of
  the path is made first when it does not exist (a \<^verbatim>\<open>FileExistsError\<close> of that call is
  passed over), and nothing more is done when the tail is \<^verbatim>\<open>.\<close>; then the directory
  itself is made.
\<close>

definition makedirs_head :: "string \<Rightarrow> string" where
  "makedirs_head name = (if path_tail name = [] then path_head (path_head name) else path_head name)"

definition makedirs_tail :: "string \<Rightarrow> string" where
  "makedirs_tail name = (if path_tail name = [] then path_tail (path_head name) else path_tail name)"

function os_makedirs :: "string \<Rightarrow> fs \<Rightarrow> error option \<times> fs" where
  "os_makedirs name fs =
     (if makedirs_head name \<noteq> [] \<and> makedirs_tail name \<noteq> [] \<and> \<not> os_exists fs (makedirs_head name) then
        (case os_makedirs (makedirs_head name) fs of
           (Some e, fs1) \<Rightarrow>
             (if e \<noteq> FileExistsError then (Some e, fs1)
              else if makedirs_tail name = ''.'' then (None, fs1)
              else os_mkdir name fs1)
         | (None, fs1) \<Rightarrow>
             (if makedirs_tail name = ''.'' then (None, fs1) else os_mkdir name fs1))
      else os_mkdir name fs)"
  by pat_completeness auto

termination os_makedirs
proof -
  have strip: "length (rstrip_slash s) \<le> length s" for s
    by (metis rstrip_slash_def length_dropWhile_le length_rev)
  have split: "length (path_head p) + length (path_tail p) \<le> length p" for p
  proof -
    have t: "length (path_tail p) \<le> length p"
      by (metis path_tail_def length_takeWhile_le length_rev)
    let ?h = "take (length p - length (path_tail p)) p"
    have "length (path_head p) \<le> length ?h"
      using strip[of ?h] by (simp add: path_head_def Let_def del: length_take)
    also have "length ?h = length p - length (path_tail p)" by simp
    finally show ?thesis using t by simp
  qed
  have len: "length (makedirs_head name) < length name" if a: "makedirs_tail name \<noteq> []" for name
  proof (cases "path_tail name = []")
    case False
    then obtain c cs where "path_tail name = c # cs" by (cases "path_tail name") auto
    with split[of name] show ?thesis
      by (simp add: makedirs_head_def)
  next
    case True
    with a obtain c cs where "path_tail (path_head name) = c # cs"
      by (cases "path_tail (path_head name)") (auto simp: makedirs_tail_def)
    with split[of "path_head name"]
    have "length (path_head (path_head name)) < length (path_head name)" by simp
    with split[of name] True show ?thesis by (simp add: makedirs_head_def)
  qed
  show ?thesis
    by (relation "measure (\<lambda>(name, fs). length name)") (auto simp: len)
qed

declare os_makedirs.simps [simp del]

text \<open>\<^verbatim>\<open>os.remove\<close> removes a regular file.\<close>

definition os_remove :: "string \<Rightarrow> fs \<Rightarrow> error + fs" where
  "os_remove p fs =
     (case locate fs p of
        None \<Rightarrow> Inl OSError
      | Some k \<Rightarrow>
          (case node_of (entries fs) k of
             Some (File c) \<Rightarrow> Inr (fs_del k fs)
           | _ \<Rightarrow> Inl OSError))"

text \<open>
  \<^verbatim>\<open>os.rename\<close> of a regular file: the destination, when it is not a directory, is
  replaced in one step. The rename of a directory is not modelled.
\<close>

definition os_rename :: "string \<Rightarrow> string \<Rightarrow> fs \<Rightarrow> error + fs" where
  "os_rename src dst fs =
     (case locate fs src of
        None \<Rightarrow> Inl OSError
      | Some ks \<Rightarrow>
          (case node_of (entries fs) ks of
             None \<Rightarrow> Inl OSError
           | Some Dir \<Rightarrow> Inl Unmodelled
           | Some (File c) \<Rightarrow>
               (case locate fs dst of
                  None \<Rightarrow> Inl OSError
                | Some kd \<Rightarrow>
                    (if node_of (entries fs) kd = Some Dir then Inl OSError
                     else Inr (fs_put kd (File c) (fs_del ks fs))))))"

text \<open>
  \<^verbatim>\<open>torch.save(state, path)\<close> opens the file for writing and then writes the pickle. The
  write is not atomic: the states of the store another process (or a crash) can observe
  are listed, the partially written file first.
\<close>

definition torch_save :: "ckpt \<Rightarrow> string \<Rightarrow> fs \<Rightarrow> error option \<times> fs list" where
  "torch_save state p fs =
     (case locate fs p of
        None \<Rightarrow> (Some TorchSaveError, [])
      | Some k \<Rightarrow>
          (if node_of (entries fs) k = Some Dir then (Some TorchSaveError, [])
           else (None, [fs_put k (File Partial) fs, fs_put k (File (Complete state)) fs])))"

definition torch_load :: "string \<Rightarrow> fs \<Rightarrow> error + ckpt" where
  "torch_load p fs =
     (case lookup fs p of
        Some (File (Complete c)) \<Rightarrow> Inr c
      | _ \<Rightarrow> Inl TorchLoadError)"

subsection \<open>Globbing\<close>

text \<open>
  \<^verbatim>\<open>fnmatch\<close> for a pattern whose only metacharacter is the star, which matches any
  string. The names of a directory, as \<^verbatim>\<open>os.scandir\<close> gives them (none when the path is
  not a directory).
\<close>

fun fnmatch :: "string \<Rightarrow> string \<Rightarrow> bool" where
  "fnmatch [] s = (s = [])"
| "fnmatch (p # ps) [] = (p = CHR ''*'' \<and> fnmatch ps [])"
| "fnmatch (p # ps) (c # cs) =
     (if p = CHR ''*'' then fnmatch ps (c # cs) \<or> fnmatch (p # ps) cs
      else p = c \<and> fnmatch ps cs)"

definition has_magic :: "string \<Rightarrow> bool" where
  "has_magic s = (CHR ''*'' \<in> set s \<or> CHR ''?'' \<in> set s \<or> CHR ''['' \<in> set s)"

definition ishidden :: "string \<Rightarrow> bool" where
  "ishidden s = (s \<noteq> [] \<and> hd s = CHR ''.'')"

definition valid_name :: "string \<Rightarrow> bool" where
  "valid_name c = (c \<noteq> [] \<and> c \<noteq> ''.'' \<and> c \<noteq> ''..'' \<and> CHR ''/'' \<notin> set c)"

definition children :: "(path \<times> node) list \<Rightarrow> path \<Rightarrow> string list" where
  "children es k =
     remdups (map (\<lambda>e. last (fst e))
       (filter (\<lambda>e. fst e \<noteq> [] \<and> butlast (fst e) = k \<and> valid_name (last (fst e))) es))"

definition listdir :: "fs \<Rightarrow> string \<Rightarrow> string list" where
  "listdir fs dirname =
     (case locate fs (if dirname = [] then ''.'' else dirname) of
        None \<Rightarrow> []
      | Some k \<Rightarrow> (if node_of (entries fs) k = Some Dir then children (entries fs) k else []))"

text \<open>
  \<^verbatim>\<open>glob.glob(pathname)\<close>, as the library defines it (\<^verbatim>\<open>_iglob\<close>, \<^verbatim>\<open>_glob0\<close>, \<^verbatim>\<open>_glob1\<close>),
  for the patterns the embedding interprets: a directory part without metacharacters
  and a base name whose only metacharacter is the star. The result on another pattern
  is \<open>None\<close>. A name that starts with a dot is listed only for a pattern that starts
  with a dot. The names come in the order of the store; the trainer sorts them.
\<close>

definition glob1 :: "fs \<Rightarrow> string \<Rightarrow> string \<Rightarrow> string list" where
  "glob1 fs dirname pattern =
     filter (fnmatch pattern)
       (if ishidden pattern then listdir fs dirname
        else filter (\<lambda>x. \<not> ishidden x) (listdir fs dirname))"

definition glob0 :: "fs \<Rightarrow> string \<Rightarrow> string \<Rightarrow> string list" where
  "glob0 fs dirname basename =
     (if basename = [] then (if os_isdir fs dirname then [basename] else [])
      else (if os_exists fs (os_path_join dirname basename) then [basename] else []))"

definition glob :: "fs \<Rightarrow> string \<Rightarrow> string list option" where
  "glob fs pathname =
     (let dirname = path_head pathname; basename = path_tail pathname in
      if \<not> has_magic pathname then
        Some (if basename \<noteq> [] then (if os_exists fs pathname then [pathname] else [])
              else (if os_isdir fs dirname then [pathname] else []))
      else if CHR ''?'' \<in> set basename \<or> CHR ''['' \<in> set basename then None
      else if dirname = [] then Some (glob1 fs [] basename)
      else if dirname \<noteq> pathname \<and> has_magic dirname then None
      else if has_magic basename then Some (map (os_path_join dirname) (glob1 fs dirname basename))
      else Some (map (os_path_join dirname) (glob0 fs dirname basename)))"

section \<open>The trainer\<close>

text \<open>
  The attributes of a \<^verbatim>\<open>BaseTrainer\<close> that the training loop and the checkpoint
  functions read or write. \<open>weights\<close>, \<open>net_info\<close> and \<open>net_constructor\<close> belong to the
  network (\<^verbatim>\<open>net.state_dict()\<close>, \<^verbatim>\<open>getattr(net, 'info', None)\<close>,
  \<^verbatim>\<open>getattr(net, 'constructor', None)\<close>); \<open>net_type\<close> and \<open>actor_type\<close> are the class
  names. \<open>attrs\<close> holds the attributes that \<^verbatim>\<open>setattr\<close> creates for keys the typed
  fields do not cover. \<open>home_dir\<close> is the value of \<^verbatim>\<open>HOME\<close>. The store, the printed
  lines and the number of calls made to \<^verbatim>\<open>train_epoch\<close> are carried in the state. The
  network and the optimizer accept any state dict.
\<close>

record sched =
  sched_blob :: blob
  last_epoch :: int

datatype event =
    NoMatchingCheckpoint
  | CurrentEpoch int
  | LoadFrom string
  | ValidationImproved pyfloat int pyfloat int
  | Crashed int
  | TracebackHeader
  | Traceback error
  | Restarting
  | Finished

record trainer =
  net_type :: string
  actor_type :: string
  weights :: blob
  net_info :: pyval
  net_constructor :: pyval
  optimizer :: blob
  lr_scheduler :: "sched option"
  base_save_dir :: "string option"
  project_path :: string
  keep_last_checkpoints :: int
  home_dir :: string
  just_started :: bool
  epoch :: int
  stats :: stats
  best_val :: pyfloat
  epoch_of_best_val :: int
  current_best_val :: "pyfloat option"
  attrs :: "(string \<times> pyval) list"
  calls :: nat
  events :: "event list"
  fsys :: fs

text \<open>The fields \<^verbatim>\<open>__init__\<close> sets (lines 32 to 37), on a trainer whose collaborators and
  settings are given.\<close>

definition init :: "trainer \<Rightarrow> trainer" where
  "init t = t\<lparr>just_started := False, epoch := 0, stats := [], best_val := PosInf,
              epoch_of_best_val := 0, current_best_val := None\<rparr>"

definition say :: "event list \<Rightarrow> trainer \<Rightarrow> trainer" where
  "say es t = t\<lparr>events := events t @ es\<rparr>"

text \<open>\<^verbatim>\<open>'{}/{}'.format(self._base_save_dir, self.settings.project_path)\<close>, the glob pattern
  of lines 124 and 193, and the paths of lines 162, 168 and 202.\<close>

definition directory :: "trainer \<Rightarrow> string" where
  "directory t = fmt_opt (base_save_dir t) @ ''/'' @ project_path t"

definition numbered_pattern :: "trainer \<Rightarrow> string" where
  "numbered_pattern t = directory t @ ''/'' @ net_type t @ ''_ep*.pth.tar''"

definition numbered_path :: "trainer \<Rightarrow> int \<Rightarrow> string" where
  "numbered_path t n = directory t @ ''/'' @ net_type t @ ''_ep'' @ fmt04d n @ ''.pth.tar''"

definition named_path :: "trainer \<Rightarrow> string \<Rightarrow> string" where
  "named_path t name = directory t @ ''/'' @ net_type t @ ''_'' @ name @ ''.pth.tar''"

subsection \<open>\<^verbatim>\<open>save_checkpoint\<close>\<close>

definition checkpoint_state :: "trainer \<Rightarrow> sched \<Rightarrow> ckpt" where
  "checkpoint_state t sch =
     [(''epoch'', VInt (epoch t)),
      (''actor_type'', VStr (actor_type t)),
      (''net_type'', VStr (net_type t)),
      (''state_dict'', VBlob (weights t)),
      (''net_info'', net_info t),
      (''constructor'', net_constructor t),
      (''optimizer'', VBlob (optimizer t)),
      (''lr_scheduler'', VBlob (sched_blob sch)),
      (''stats'', VStats (stats t)),
      (''best_val'', VFloat (best_val t)),
      (''epoch_of_best_val'', VInt (epoch_of_best_val t))]"

definition tmp_path :: "trainer \<Rightarrow> string option \<Rightarrow> string" where
  "tmp_path t name =
     (case name of
        Some n \<Rightarrow> directory t @ ''/'' @ net_type t @ ''_'' @ n @ ''.tmp''
      | None \<Rightarrow> directory t @ ''/'' @ net_type t @ ''_ep'' @ fmt04d (epoch t) @ ''.tmp'')"

definition file_path :: "trainer \<Rightarrow> string option \<Rightarrow> string" where
  "file_path t name =
     (case name of
        Some n \<Rightarrow> named_path t n
      | None \<Rightarrow> numbered_path t (epoch t))"

text \<open>
  The store operations of one save (lines 152 to 171), with the states of the store that
  are observable while it runs: the store before, after the directories are made, while
  the temporary file is being written, after it is written, and after the rename. (The
  states between the \<^verbatim>\<open>mkdir\<close> calls of \<^verbatim>\<open>os.makedirs\<close> differ in directories only and are
  not listed.)
\<close>

definition save_fs :: "ckpt \<Rightarrow> string \<Rightarrow> string \<Rightarrow> string \<Rightarrow> fs \<Rightarrow> error option \<times> fs list" where
  "save_fs state d tmp final fs0 =
     (case (if os_exists fs0 d then (None, fs0) else os_makedirs d fs0) of
        (Some e, fs1) \<Rightarrow> (Some e, [fs0, fs1])
      | (None, fs1) \<Rightarrow>
          (case torch_save state tmp fs1 of
             (Some e, ws) \<Rightarrow> (Some e, [fs0, fs1])
           | (None, ws) \<Rightarrow>
               (case os_rename tmp final (last ws) of
                  Inl e \<Rightarrow> (Some e, [fs0, fs1] @ ws)
                | Inr fs3 \<Rightarrow> (None, [fs0, fs1] @ ws @ [fs3]))))"

text \<open>\<^verbatim>\<open>save_checkpoint\<close>: the state dictionary is built first, and
  \<^verbatim>\<open>self.lr_scheduler.state_dict()\<close> fails on \<^verbatim>\<open>None\<close>.\<close>

definition save_checkpoint :: "string option \<Rightarrow> trainer \<Rightarrow> error option \<times> trainer" where
  "save_checkpoint name t =
     (case lr_scheduler t of
        None \<Rightarrow> (Some AttributeError, t)
      | Some sch \<Rightarrow>
          (case save_fs (checkpoint_state t sch) (directory t) (tmp_path t name)
                  (file_path t name) (fsys t) of
             (r, tr) \<Rightarrow> (r, t\<lparr>fsys := last tr\<rparr>)))"

subsection \<open>\<^verbatim>\<open>delete_old_checkpoints\<close>\<close>

text \<open>\<^verbatim>\<open>xs[:-k]\<close>: for positive \<open>k\<close> all but the last \<open>k\<close> elements; \<^verbatim>\<open>xs[:0]\<close> is empty;
  for negative \<open>k\<close> the stop index \<open>-k\<close> is positive and counts from the front.\<close>

definition slice_to_neg :: "int \<Rightarrow> 'a list \<Rightarrow> 'a list" where
  "slice_to_neg k xs = (if 0 < k then take (length xs - nat k) xs else take (nat (- k)) xs)"

fun remove_all :: "string list \<Rightarrow> fs \<Rightarrow> error option \<times> fs" where
  "remove_all [] fs = (None, fs)"
| "remove_all (p # ps) fs =
     (case os_remove p fs of
        Inl e \<Rightarrow> (Some e, fs)
      | Inr fs' \<Rightarrow> remove_all ps fs')"

definition ckpts_to_remove :: "trainer \<Rightarrow> string list option" where
  "ckpts_to_remove t =
     (case glob (fsys t) (numbered_pattern t) of
        None \<Rightarrow> None
      | Some g \<Rightarrow> Some (slice_to_neg (keep_last_checkpoints t) (sort (sort g))))"

definition delete_old_checkpoints :: "trainer \<Rightarrow> error option \<times> trainer" where
  "delete_old_checkpoints t =
     (case ckpts_to_remove t of
        None \<Rightarrow> (Some Unmodelled, t)
      | Some ps \<Rightarrow>
          (case remove_all ps (fsys t) of
             (r, fs') \<Rightarrow> (r, t\<lparr>fsys := fs'\<rparr>)))"

subsection \<open>\<^verbatim>\<open>load_checkpoint\<close>\<close>

text \<open>The \<^verbatim>\<open>checkpoint\<close> argument: \<^verbatim>\<open>None\<close>, an int, a str, or a value of another type.\<close>

datatype selector = SelNone | SelInt int | SelStr string | SelOther

text \<open>
  Lines 190 to 217: the path to load and the \<^verbatim>\<open>resume\<close> flag; \<open>Inr None\<close> is the early
  \<^verbatim>\<open>return\<close> of the search that finds nothing.
\<close>

definition resolve :: "selector \<Rightarrow> trainer \<Rightarrow> error + (string \<times> bool) option" where
  "resolve sel t =
     (case sel of
        SelNone \<Rightarrow>
          (case glob (fsys t) (numbered_pattern t) of
             None \<Rightarrow> Inl Unmodelled
           | Some g \<Rightarrow>
               (let checkpoint_list = sort g in
                if checkpoint_list \<noteq> [] then Inr (Some (last checkpoint_list, True))
                else Inr None))
      | SelInt n \<Rightarrow> Inr (Some (numbered_path t n, True))
      | SelStr s \<Rightarrow>
          (if os_isdir (fsys t) s then
             (case glob (fsys t) (s @ ''/*_ep*.pth.tar'') of
                None \<Rightarrow> Inl Unmodelled
              | Some g \<Rightarrow>
                  (let checkpoint_list = sort g in
                   if checkpoint_list \<noteq> [] then Inr (Some (last checkpoint_list, True))
                   else Inl NoCheckpointFound))
           else
             (case expanduser (home_dir t) s of
                None \<Rightarrow> Inl Unmodelled
              | Some p \<Rightarrow> Inr (Some (p, False))))
      | SelOther \<Rightarrow> Inl TypeError)"

text \<open>
  \<^verbatim>\<open>setattr(self, key, value)\<close>. The attributes that the typed trainer holds take the
  values of their type. A value of another type for one of them, and a key that names
  another attribute or a method the code uses, or a private name, are outside the
  embedding. Any other key becomes a dynamic attribute.
\<close>

definition reserved :: "string list" where
  "reserved = [''actor'', ''optimizer'', ''lr_scheduler'', ''loaders'', ''make_initial_validation'',
     ''settings'', ''device'', ''update_settings'', ''train'', ''train_epoch'',
     ''delete_old_checkpoints'', ''save_checkpoint'', ''load_checkpoint'']"

definition setattr :: "string \<Rightarrow> pyval \<Rightarrow> trainer \<Rightarrow> error + trainer" where
  "setattr key v t =
     (if key = ''epoch'' then
        (case v of VInt n \<Rightarrow> Inr (t\<lparr>epoch := n\<rparr>) | _ \<Rightarrow> Inl Unmodelled)
      else if key = ''stats'' then
        (case v of VStats s \<Rightarrow> Inr (t\<lparr>stats := s\<rparr>) | _ \<Rightarrow> Inl Unmodelled)
      else if key = ''best_val'' then
        (case v of VFloat f \<Rightarrow> Inr (t\<lparr>best_val := f\<rparr>) | _ \<Rightarrow> Inl Unmodelled)
      else if key = ''epoch_of_best_val'' then
        (case v of VInt n \<Rightarrow> Inr (t\<lparr>epoch_of_best_val := n\<rparr>) | _ \<Rightarrow> Inl Unmodelled)
      else if key = ''current_best_val'' then
        (case v of
           VNone \<Rightarrow> Inr (t\<lparr>current_best_val := None\<rparr>)
         | VFloat f \<Rightarrow> Inr (t\<lparr>current_best_val := Some f\<rparr>)
         | _ \<Rightarrow> Inl Unmodelled)
      else if key = ''just_started'' then
        (case v of VBool b \<Rightarrow> Inr (t\<lparr>just_started := b\<rparr>) | _ \<Rightarrow> Inl Unmodelled)
      else if key = ''_base_save_dir'' then
        (case v of
           VNone \<Rightarrow> Inr (t\<lparr>base_save_dir := None\<rparr>)
         | VStr s \<Rightarrow> Inr (t\<lparr>base_save_dir := Some s\<rparr>)
         | _ \<Rightarrow> Inl Unmodelled)
      else if key \<in> set reserved \<or> (key \<noteq> [] \<and> hd key = CHR ''_'') then Inl Unmodelled
      else Inr (t\<lparr>attrs := (key, v) # filter (\<lambda>a. fst a \<noteq> key) (attrs t)\<rparr>))"

text \<open>One pass of the loop of lines 239 to 254 for the key \<open>key\<close>. The state dicts are
  blobs.\<close>

definition load_field :: "ckpt \<Rightarrow> string list \<Rightarrow> string \<Rightarrow> trainer \<Rightarrow> error + trainer" where
  "load_field ck ignore_fields key t =
     (if key \<in> set ignore_fields then Inr t
      else
        (case map_of ck key of
           None \<Rightarrow> Inl (KeyError key)
         | Some v \<Rightarrow>
             (if key = ''state_dict'' then
                (case v of VBlob b \<Rightarrow> Inr (t\<lparr>weights := b\<rparr>) | _ \<Rightarrow> Inl Unmodelled)
              else if key = ''optimizer'' then
                (if truthy v then
                   (case v of VBlob b \<Rightarrow> Inr (t\<lparr>optimizer := b\<rparr>) | _ \<Rightarrow> Inl Unmodelled)
                 else Inr t)
              else setattr key v t)))"

fun load_fields :: "ckpt \<Rightarrow> string list \<Rightarrow> string list \<Rightarrow> trainer \<Rightarrow> error option \<times> trainer" where
  "load_fields ck ignore_fields [] t = (None, t)"
| "load_fields ck ignore_fields (key # keys) t =
     (case load_field ck ignore_fields key t of
        Inl e \<Rightarrow> (Some e, t)
      | Inr t' \<Rightarrow> load_fields ck ignore_fields keys t')"

text \<open>Line 225: the assertion on the recorded network type. \<^verbatim>\<open>x in net_type\<close> raises
  \<^verbatim>\<open>TypeError\<close> when \<open>x\<close> is not a string.\<close>

definition check_net_type :: "string \<Rightarrow> pyval \<Rightarrow> error option" where
  "check_net_type current v =
     (case v of
        VStr checkpoint_net_type \<Rightarrow>
          (if current = checkpoint_net_type \<or> str_in checkpoint_net_type current then None
           else Some AssertionError)
      | _ \<Rightarrow> Some TypeError)"

definition ignore_list :: "string list option \<Rightarrow> string list option \<Rightarrow> string list" where
  "ignore_list ignore_fields additional_ignore_fields =
     (case ignore_fields of None \<Rightarrow> [''settings''] | Some l \<Rightarrow> l)
     @ [''lr_scheduler'', ''constructor'', ''net_type'', ''actor_type'', ''net_info'']
     @ (case additional_ignore_fields of None \<Rightarrow> [] | Some l \<Rightarrow> l)"

text \<open>Lines 256 to 267: the reset of a fresh load and the network's descriptors.\<close>

definition reset_unless_resume :: "bool \<Rightarrow> trainer \<Rightarrow> trainer" where
  "reset_unless_resume resume t =
     (if \<not> resume then t\<lparr>epoch := 0, stats := [], best_val := PosInf, epoch_of_best_val := 0\<rparr>
      else t)"

definition set_net_info :: "bool \<Rightarrow> ckpt \<Rightarrow> trainer \<Rightarrow> trainer" where
  "set_net_info load_constructor ck t =
     (let t1 = (case map_of ck ''constructor'' of
                  Some v \<Rightarrow> (if load_constructor \<and> v \<noteq> VNone then t\<lparr>net_constructor := v\<rparr> else t)
                | None \<Rightarrow> t)
      in case map_of ck ''net_info'' of
           Some v \<Rightarrow> (if v \<noteq> VNone then t1\<lparr>net_info := v\<rparr> else t1)
         | None \<Rightarrow> t1)"

text \<open>Lines 269 to 272: the scheduler's epoch is set whenever \<^verbatim>\<open>'epoch'\<close> is among the
  fields, with no test of the scheduler.\<close>

definition update_scheduler :: "string list \<Rightarrow> trainer \<Rightarrow> error option \<times> trainer" where
  "update_scheduler flds t =
     (if ''epoch'' \<in> set flds then
        (case lr_scheduler t of
           None \<Rightarrow> (Some AttributeError, t)
         | Some sch \<Rightarrow> (None, t\<lparr>lr_scheduler := Some (sch\<lparr>last_epoch := epoch t\<rparr>)\<rparr>))
      else (None, t))"

text \<open>Lines 219 to 274, once the path is known.\<close>

definition load_from :: "string \<Rightarrow> bool \<Rightarrow> string list option \<Rightarrow> string list option \<Rightarrow>
    string list option \<Rightarrow> bool \<Rightarrow> trainer \<Rightarrow> error option \<times> trainer" where
  "load_from checkpoint_path resume flds ignore_fields additional_ignore_fields
       load_constructor t0 =
     (let t = say [CurrentEpoch (epoch t0), LoadFrom checkpoint_path] t0 in
      case torch_load checkpoint_path (fsys t) of
        Inl e \<Rightarrow> (Some e, t)
      | Inr checkpoint_dict \<Rightarrow>
          (case map_of checkpoint_dict ''net_type'' of
             None \<Rightarrow> (Some (KeyError ''net_type''), t)
           | Some checkpoint_net_type \<Rightarrow>
               (case check_net_type (net_type t) checkpoint_net_type of
                  Some e \<Rightarrow> (Some e, t)
                | None \<Rightarrow>
                    (let field_list = (case flds of None \<Rightarrow> map fst checkpoint_dict | Some l \<Rightarrow> l) in
                     case load_fields checkpoint_dict
                            (ignore_list ignore_fields additional_ignore_fields) field_list t of
                       (Some e, t1) \<Rightarrow> (Some e, t1)
                     | (None, t1) \<Rightarrow>
                         (let t2 = reset_unless_resume resume t1;
                              t3 = say [CurrentEpoch (epoch t2)] t2;
                              t4 = set_net_info load_constructor checkpoint_dict t3
                          in update_scheduler field_list t4)))))"

definition load_checkpoint :: "selector \<Rightarrow> string list option \<Rightarrow> string list option \<Rightarrow>
    string list option \<Rightarrow> bool \<Rightarrow> trainer \<Rightarrow> error option \<times> trainer" where
  "load_checkpoint checkpoint flds ignore_fields additional_ignore_fields load_constructor t =
     (case resolve checkpoint t of
        Inl e \<Rightarrow> (Some e, t)
      | Inr None \<Rightarrow> (None, say [NoMatchingCheckpoint] t)
      | Inr (Some (checkpoint_path, resume)) \<Rightarrow>
          load_from checkpoint_path resume flds ignore_fields additional_ignore_fields
            load_constructor t)"

subsection \<open>\<^verbatim>\<open>train\<close>\<close>

text \<open>
  \<^verbatim>\<open>train_epoch\<close> is the subclass's method. It is a parameter of the model: the outcome of
  its \<open>n\<close>-th call is either a failure or the network weights, the optimizer state, the
  statistics and \<^verbatim>\<open>current_best_val\<close> it leaves behind (\<open>None\<close> when no validation score
  is there).
\<close>

datatype outcome = Crash | Done blob blob stats "pyfloat option"

definition train_epoch :: "(nat \<Rightarrow> outcome) \<Rightarrow> trainer \<Rightarrow> error option \<times> trainer" where
  "train_epoch te t =
     (case te (calls t) of
        Crash \<Rightarrow> (Some (EpochFailure (calls t)), t\<lparr>calls := Suc (calls t)\<rparr>)
      | Done w opt st cbv \<Rightarrow>
          (None, t\<lparr>weights := w, optimizer := opt, stats := st, current_best_val := cbv,
                   calls := Suc (calls t)\<rparr>))"

text \<open>Lines 82 to 84.\<close>

definition update_scheduler_step :: "trainer \<Rightarrow> trainer" where
  "update_scheduler_step t =
     (case lr_scheduler t of
        None \<Rightarrow> t
      | Some sch \<Rightarrow> t\<lparr>lr_scheduler := Some (sch\<lparr>last_epoch := last_epoch sch + 1\<rparr>)\<rparr>)"

text \<open>Lines 86 to 94.\<close>

definition save_best :: "trainer \<Rightarrow> error option \<times> trainer" where
  "save_best t =
     (case current_best_val t of
        None \<Rightarrow> (None, t)
      | Some c \<Rightarrow>
          (if flt_lt c (best_val t) then
             save_checkpoint (Some ''model_best'')
               ((say [ValidationImproved (best_val t) (epoch_of_best_val t) c (epoch t)] t)
                  \<lparr>best_val := c, epoch_of_best_val := epoch t\<rparr>)
           else (None, t)))"

text \<open>Lines 97 to 100. \<^verbatim>\<open>if self._base_save_dir\<close> holds for a string that is not empty.\<close>

definition save_numbered :: "trainer \<Rightarrow> error option \<times> trainer" where
  "save_numbered t =
     (if base_save_dir t \<noteq> None \<and> base_save_dir t \<noteq> Some [] then
        (case save_checkpoint None t of
           (Some e, t') \<Rightarrow> (Some e, t')
         | (None, t') \<Rightarrow> delete_old_checkpoints t')
      else (None, t))"

definition epoch_body :: "(nat \<Rightarrow> outcome) \<Rightarrow> int \<Rightarrow> trainer \<Rightarrow> error option \<times> trainer" where
  "epoch_body te e t =
     (case train_epoch te (t\<lparr>epoch := e\<rparr>) of
        (Some err, t1) \<Rightarrow> (Some err, t1)
      | (None, t1) \<Rightarrow>
          (case save_best (update_scheduler_step t1) of
             (Some err, t2) \<Rightarrow> (Some err, t2)
           | (None, t2) \<Rightarrow> save_numbered (t2\<lparr>just_started := False\<rparr>)))"

text \<open>The loop of line 76 over the epochs of the range; the local variable \<^verbatim>\<open>epoch\<close> is
  carried beside the trainer.\<close>

fun epochs_loop :: "(nat \<Rightarrow> outcome) \<Rightarrow> int list \<Rightarrow> int \<times> trainer \<Rightarrow> error option \<times> int \<times> trainer" where
  "epochs_loop te [] (ep, t) = (None, ep, t)"
| "epochs_loop te (e # es) (ep, t) =
     (case epoch_body te e t of
        (Some err, t') \<Rightarrow> (Some err, e, t')
      | (None, t') \<Rightarrow> epochs_loop te es (e, t'))"

text \<open>The body of the \<^verbatim>\<open>try\<close> (lines 73 to 100).\<close>

definition attempt :: "(nat \<Rightarrow> outcome) \<Rightarrow> int \<Rightarrow> bool \<Rightarrow> string list option \<Rightarrow> int \<times> trainer \<Rightarrow>
    error option \<times> int \<times> trainer" where
  "attempt te max_epochs load_latest load_ignore_fields s =
     (case s of (ep, t) \<Rightarrow>
        (case (if load_latest then load_checkpoint SelNone None None load_ignore_fields False t
               else (None, t)) of
           (Some e, t1) \<Rightarrow> (Some e, ep, t1)
         | (None, t1) \<Rightarrow> epochs_loop te [epoch t1 + 1 .. max_epochs] (ep, t1)))"

text \<open>The \<^verbatim>\<open>except\<close> clause when \<^verbatim>\<open>fail_safe\<close> holds (lines 103 to 109): the crash is
  printed with the local \<^verbatim>\<open>epoch\<close>, the epoch counter is decremented and the traceback
  is printed.\<close>

definition on_crash :: "error \<Rightarrow> int \<Rightarrow> trainer \<Rightarrow> trainer" where
  "on_crash e ep t =
     (let t1 = say [Crashed ep] t
      in say [TracebackHeader, Traceback e, Restarting] (t1\<lparr>epoch := epoch t1 - 1\<rparr>))"

text \<open>The \<^verbatim>\<open>for i in range(num_tries)\<close> loop with its \<^verbatim>\<open>except\<close> clause (lines 71 to
  111), for the tries that remain, and the last line of \<^verbatim>\<open>train\<close>. In the fail-safe
  branch \<^verbatim>\<open>load_latest\<close> becomes true; otherwise the exception is raised again. The
  result \<open>Unmodelled\<close> is not an exception and ends the run.\<close>

fun tries :: "(nat \<Rightarrow> outcome) \<Rightarrow> int \<Rightarrow> bool \<Rightarrow> string list option \<Rightarrow> nat \<Rightarrow> bool \<Rightarrow>
    int \<times> trainer \<Rightarrow> error option \<times> trainer" where
  "tries te max_epochs fail_safe lif 0 load_latest (ep, t) = (None, say [Finished] t)"
| "tries te max_epochs fail_safe lif (Suc n) load_latest (ep, t) =
     (case attempt te max_epochs load_latest lif (ep, t) of
        (None, ep', t') \<Rightarrow> tries te max_epochs fail_safe lif n load_latest (ep', t')
      | (Some e, ep', t') \<Rightarrow>
          (if e = Unmodelled then (Some Unmodelled, t')
           else if fail_safe then tries te max_epochs fail_safe lif n True (ep', on_crash e ep' t')
           else (Some e, say [Crashed ep'] t')))"

definition train :: "(nat \<Rightarrow> outcome) \<Rightarrow> int \<Rightarrow> bool \<Rightarrow> bool \<Rightarrow> string list option \<Rightarrow> trainer \<Rightarrow>
    error option \<times> trainer" where
  "train te max_epochs load_latest fail_safe load_ignore_fields t =
     tries te max_epochs fail_safe load_ignore_fields 2 load_latest
       (- 1, t\<lparr>just_started := True\<rparr>)"

section \<open>Concrete trainers and stores\<close>

text \<open>A store whose working directory is \<^verbatim>\<open>/job\<close>, with entries below it. A trainer for
  a network of class \<^verbatim>\<open>GLUNet\<close> with a scheduler, a workspace \<^verbatim>\<open>ws\<close> and the project path
  \<^verbatim>\<open>proj\<close>, and checkpoint files as another run may have left them.\<close>

definition job_store :: "(path \<times> node) list \<Rightarrow> fs" where
  "job_store es = \<lparr>cwd = [''job''], entries = ([''job''], Dir) # map (\<lambda>e. (''job'' # fst e, snd e)) es\<rparr>"

definition example_trainer :: trainer where
  "example_trainer = \<lparr>net_type = ''GLUNet'', actor_type = ''Actor'', weights = 1,
     net_info = VNone, net_constructor = VNone, optimizer = 1,
     lr_scheduler = Some \<lparr>sched_blob = 1, last_epoch = 0\<rparr>,
     base_save_dir = Some ''ws'', project_path = ''proj'', keep_last_checkpoints = 2,
     home_dir = ''/home/u'', just_started = False, epoch = 0, stats = [],
     best_val = PosInf, epoch_of_best_val = 0, current_best_val = None, attrs = [],
     calls = 0, events = [], fsys = job_store []\<rparr>"

definition example_ckpt :: "string \<Rightarrow> int \<Rightarrow> ckpt" where
  "example_ckpt nt e =
     [(''epoch'', VInt e), (''actor_type'', VStr ''Actor''), (''net_type'', VStr nt),
      (''state_dict'', VBlob 7), (''net_info'', VNone), (''constructor'', VNone),
      (''optimizer'', VBlob 8), (''lr_scheduler'', VBlob 9), (''stats'', VStats [(e, 1)]),
      (''best_val'', VFloat (Finite 1)), (''epoch_of_best_val'', VInt e)]"

definition example_file :: "path \<Rightarrow> string \<Rightarrow> int \<Rightarrow> path \<times> node" where
  "example_file k nt e = (k, File (Complete (example_ckpt nt e)))"

definition no_sched_trainer :: trainer where
  "no_sched_trainer = example_trainer\<lparr>lr_scheduler := None,
      fsys := job_store [([''ws''], Dir), ([''ws'', ''proj''], Dir),
                example_file [''ws'', ''proj'', ''GLUNet_ep0003.pth.tar''] ''GLUNet'' 3]\<rparr>"

definition substring_trainer :: trainer where
  "substring_trainer = example_trainer\<lparr>fsys :=
      job_store [([''old''], Dir), example_file [''old'', ''run.pth.tar''] ''Net'' 7]\<rparr>"

definition scored_trainer :: trainer where
  "scored_trainer = example_trainer\<lparr>epoch := 4, best_val := Finite 5, epoch_of_best_val := 2,
      current_best_val := Some (Finite 3)\<rparr>"

definition example_scores :: "nat \<Rightarrow> outcome" where
  "example_scores n =
     (if n = 0 then Done 1 1 [(1, 5)] (Some (Finite 5))
      else if n = 1 then Done 2 2 [(2, 3)] (Some (Finite 3))
      else Done 3 3 [(3, 4)] (Some (Finite 4)))"

text \<open>The states of a run of three epochs whose validation scores are 5, 3 and 4.\<close>

definition scores_t1 :: trainer where
  "scores_t1 = snd (snd (epochs_loop example_scores [1] (0, init example_trainer)))"

definition scores_t2 :: trainer where
  "scores_t2 = snd (epoch_body example_scores 2 scores_t1)"

definition scores_t3 :: trainer where
  "scores_t3 = snd (snd (epochs_loop example_scores [2, 3] (1, scores_t1)))"

text \<open>A trainer at epoch 2 whose workspace does not exist, beside an empty directory
  \<^verbatim>\<open>ckpts\<close>. A trainer without a workspace, and an epoch function without validation
  scores whose third call fails.\<close>

definition dir_trainer :: trainer where
  "dir_trainer = example_trainer\<lparr>epoch := 2, fsys := job_store [([''ckpts''], Dir)]\<rparr>"

definition no_workspace_trainer :: trainer where
  "no_workspace_trainer = example_trainer\<lparr>base_save_dir := None\<rparr>"

definition third_call_fails :: "nat \<Rightarrow> outcome" where
  "third_call_fails n = (if n = 2 then Crash else Done (n + 1) (n + 1) [] None)"

text \<open>A trainer in whose project directory the name of the temporary file of epoch 2 is
  taken by a directory, so that the numbered save of epoch 2 fails; the state after the
  first try of a run of two epochs with the scores 5, 3, 4, and the state after the load
  of the second try.\<close>

definition blocked_trainer :: trainer where
  "blocked_trainer = example_trainer\<lparr>fsys :=
      job_store [([''ws''], Dir), ([''ws'', ''proj''], Dir),
                 ([''ws'', ''proj'', ''GLUNet_ep0002.tmp''], Dir)]\<rparr>"

definition blocked_t1 :: trainer where
  "blocked_t1 = snd (snd (attempt example_scores 2 False None
      (- 1, blocked_trainer\<lparr>just_started := True\<rparr>)))"

definition blocked_t2 :: trainer where
  "blocked_t2 = snd (load_checkpoint SelNone None None None False
      (on_crash TorchSaveError 2 blocked_t1))"

text \<open>An epoch function that always fails. The state after the first try of a run of
  three epochs whose third call of \<^verbatim>\<open>train_epoch\<close> fails, and after the second try.\<close>

definition always_crash :: "nat \<Rightarrow> outcome" where
  "always_crash n = Crash"

definition crash_t1 :: trainer where
  "crash_t1 = snd (snd (attempt third_call_fails 3 False None
      (- 1, example_trainer\<lparr>just_started := True\<rparr>)))"

definition crash_t2 :: trainer where
  "crash_t2 = snd (snd (attempt third_call_fails 3 True None
      (3, on_crash (EpochFailure 2) 3 crash_t1)))"

text \<open>A trainer after five epochs that saves, and a new trainer on the store it leaves.\<close>

definition saving_trainer :: trainer where
  "saving_trainer = example_trainer\<lparr>epoch := 5, stats := [(5, 2)], best_val := Finite 2,
      epoch_of_best_val := 4, weights := 11, optimizer := 12\<rparr>"

definition loading_trainer :: trainer where
  "loading_trainer = example_trainer\<lparr>fsys := fsys (snd (save_checkpoint None saving_trainer))\<rparr>"

section \<open>Basic facts\<close>

lemma str_in_sublist: "str_in a b = sublist a b"
  by (induction b) (auto simp: sublist_code(3) sublist_Cons_right)

lemma sort_Nil_iff: "sort xs = [] \<longleftrightarrow> xs = []"
  by (metis length_sort length_0_conv)

lemma say_sched: "lr_scheduler (say es t) = lr_scheduler t"
  by (simp add: say_def)

lemma say_fsys: "fsys (say es t) = fsys t"
  by (simp add: say_def)

lemma setattr_sched: "setattr key v t = Inr t' \<Longrightarrow> lr_scheduler t' = lr_scheduler t"
  by (auto simp: setattr_def split: if_splits pyval.splits)

lemma load_field_sched: "load_field ck ign key t = Inr t' \<Longrightarrow> lr_scheduler t' = lr_scheduler t"
  by (auto simp: load_field_def split: if_splits option.splits pyval.splits dest: setattr_sched)

lemma load_fields_sched: "load_fields ck ign ks t = (r, t') \<Longrightarrow> lr_scheduler t' = lr_scheduler t"
proof (induction ks arbitrary: t)
  case Nil
  then show ?case by simp
next
  case (Cons k ks)
  then show ?case
    by (auto split: sum.splits dest: load_field_sched)
qed

lemma setattr_error: "setattr key v t = Inl e \<Longrightarrow> e = Unmodelled"
  by (auto simp: setattr_def split: if_splits pyval.splits)

lemma load_field_error: "load_field ck ign key t = Inl e \<Longrightarrow> e = Unmodelled \<or> e = KeyError key"
  by (auto simp: load_field_def split: if_splits option.splits pyval.splits dest: setattr_error)

lemma load_fields_error:
  "load_fields ck ign ks t = (Some e, t') \<Longrightarrow> e \<noteq> AssertionError"
proof (induction ks arbitrary: t)
  case Nil
  then show ?case by simp
next
  case (Cons k ks)
  then show ?case
    by (auto split: sum.splits dest: load_field_error)
qed

lemma update_scheduler_none:
  "lr_scheduler t = None \<Longrightarrow> ''epoch'' \<in> set fl \<Longrightarrow> update_scheduler fl t = (Some AttributeError, t)"
  by (simp add: update_scheduler_def)

lemma set_net_info_sched: "lr_scheduler (set_net_info lc ck t) = lr_scheduler t"
  by (simp add: set_net_info_def Let_def split: option.splits)

lemma reset_sched: "lr_scheduler (reset_unless_resume r t) = lr_scheduler t"
  by (simp add: reset_unless_resume_def)

section \<open>A trainer without a scheduler\<close>

lemma load_from_no_scheduler:
  assumes "lr_scheduler t = None"
    and "torch_load p (fsys t) = Inr ck"
    and "''epoch'' \<in> set (case fl of None \<Rightarrow> map fst ck | Some l \<Rightarrow> l)"
  shows "fst (load_from p resume fl ign add lc t) \<noteq> None"
proof -
  let ?t = "say [CurrentEpoch (epoch t), LoadFrom p] t"
  let ?fl = "case fl of None \<Rightarrow> map fst ck | Some l \<Rightarrow> l"
  have ld: "torch_load p (fsys ?t) = Inr ck" using assms(2) by (simp add: say_fsys)
  show ?thesis
  proof (cases "map_of ck ''net_type''")
    case None
    then show ?thesis using ld by (simp add: load_from_def Let_def)
  next
    case (Some v)
    show ?thesis
    proof (cases "check_net_type (net_type ?t) v")
      case (Some e)
      then show ?thesis using ld \<open>map_of ck ''net_type'' = Some v\<close>
        by (simp add: load_from_def Let_def)
    next
      case None
      obtain r t1 where lf: "load_fields ck (ignore_list ign add) ?fl ?t = (r, t1)"
        by (cases "load_fields ck (ignore_list ign add) ?fl ?t") auto
      have s1: "lr_scheduler t1 = None"
        using load_fields_sched[OF lf] assms(1) by (simp add: say_sched)
      show ?thesis
      proof (cases r)
        case (Some e)
        then show ?thesis using ld \<open>map_of ck ''net_type'' = Some v\<close> None lf
          by (simp add: load_from_def Let_def)
      next
        case None2: None
        let ?t4 = "set_net_info lc ck (say [CurrentEpoch (epoch (reset_unless_resume resume t1))] (reset_unless_resume resume t1))"
        have "lr_scheduler ?t4 = None"
          using s1 by (simp add: set_net_info_sched say_sched reset_sched)
        then have "update_scheduler ?fl ?t4 = (Some AttributeError, ?t4)"
          using assms(3) by (rule update_scheduler_none)
        then show ?thesis using ld \<open>map_of ck ''net_type'' = Some v\<close> None lf None2
          by (simp add: load_from_def Let_def)
      qed
    qed
  qed
qed

text \<open>
  Claim C10. The scheduler is optional and the epoch loop tests it before
  \<^verbatim>\<open>step()\<close>, but \<^verbatim>\<open>save_checkpoint\<close> and \<^verbatim>\<open>load_checkpoint\<close> use it without a test:
  for a trainer whose \<^verbatim>\<open>lr_scheduler\<close> is \<^verbatim>\<open>None\<close>, every save fails (with
  \<^verbatim>\<open>AttributeError\<close>, before the store is touched), and every load that reaches a
  checkpoint file whose fields include \<^verbatim>\<open>'epoch'\<close> fails.
\<close>

theorem no_scheduler_save_and_load_fail:
  assumes "lr_scheduler t = None"
  shows "save_checkpoint name t = (Some AttributeError, t) \<and>
         (resolve sel t = Inr (Some (p, resume)) \<and> torch_load p (fsys t) = Inr ck \<and>
          ''epoch'' \<in> set (case fl of None \<Rightarrow> map fst ck | Some l \<Rightarrow> l)
          \<longrightarrow> fst (load_checkpoint sel fl ign add lc t) \<noteq> None)"
proof (intro conjI impI)
  show "save_checkpoint name t = (Some AttributeError, t)"
    using assms by (simp add: save_checkpoint_def)
next
  assume h: "resolve sel t = Inr (Some (p, resume)) \<and> torch_load p (fsys t) = Inr ck \<and>
          ''epoch'' \<in> set (case fl of None \<Rightarrow> map fst ck | Some l \<Rightarrow> l)"
  then have "load_checkpoint sel fl ign add lc t = load_from p resume fl ign add lc t"
    by (simp add: load_checkpoint_def)
  then show "fst (load_checkpoint sel fl ign add lc t) \<noteq> None"
    using load_from_no_scheduler[OF assms, of p ck fl resume ign add lc] h by simp
qed

theorem no_scheduler_save_and_load_fail_witness:
  "lr_scheduler no_sched_trainer = None \<and>
   save_checkpoint None no_sched_trainer = (Some AttributeError, no_sched_trainer) \<and>
   resolve SelNone no_sched_trainer = Inr (Some (''ws/proj/GLUNet_ep0003.pth.tar'', True)) \<and>
   torch_load ''ws/proj/GLUNet_ep0003.pth.tar'' (fsys no_sched_trainer) = Inr (example_ckpt ''GLUNet'' 3) \<and>
   ''epoch'' \<in> set (map fst (example_ckpt ''GLUNet'' 3)) \<and>
   fst (load_checkpoint SelNone None None None False no_sched_trainer) \<noteq> None"
proof -
  have h1: "lr_scheduler no_sched_trainer = None" by code_simp
  have h2: "resolve SelNone no_sched_trainer = Inr (Some (''ws/proj/GLUNet_ep0003.pth.tar'', True))"
    by code_simp
  have h3: "torch_load ''ws/proj/GLUNet_ep0003.pth.tar'' (fsys no_sched_trainer) = Inr (example_ckpt ''GLUNet'' 3)"
    by code_simp
  have h4: "''epoch'' \<in> set (map fst (example_ckpt ''GLUNet'' 3))" by code_simp
  show ?thesis
    using no_scheduler_save_and_load_fail[OF h1, of None SelNone "''ws/proj/GLUNet_ep0003.pth.tar''" True
        "example_ckpt ''GLUNet'' 3" None None None False] h1 h2 h3 h4
    by simp
qed

section \<open>Resolution that finds no checkpoint\<close>

text \<open>
  Claim C9, as amended. When the search of the workspace finds no file (the call without
  a checkpoint argument), \<^verbatim>\<open>load_checkpoint\<close> prints a line and returns without any other
  effect, and \<^verbatim>\<open>train\<close> goes on with the epochs after the epoch the trainer holds in
  memory (which is 0 for a new trainer only): the next step is the call of
  \<^verbatim>\<open>train_epoch\<close> for that epoch plus one. When the argument is a directory that holds
  no matching file, the load fails with the exception \<^verbatim>\<open>Exception('No checkpoint found')\<close>.
\<close>

theorem no_checkpoint_found:
  "(glob (fsys t) (numbered_pattern t) = Some [] \<longrightarrow>
      load_checkpoint SelNone fl ign add lc t = (None, t\<lparr>events := events t @ [NoMatchingCheckpoint]\<rparr>) \<and>
      attempt te m True lif (ep, t) =
        epochs_loop te [epoch t + 1 .. m] (ep, t\<lparr>events := events t @ [NoMatchingCheckpoint]\<rparr>) \<and>
      (epoch t < m \<and> te (calls t) = Crash \<longrightarrow>
         attempt te m True lif (ep, t) =
           (Some (EpochFailure (calls t)), epoch t + 1,
            t\<lparr>events := events t @ [NoMatchingCheckpoint], epoch := epoch t + 1,
               calls := Suc (calls t)\<rparr>))) \<and>
   epoch (init u) = 0 \<and>
   (os_isdir (fsys t) d \<and> glob (fsys t) (d @ ''/*_ep*.pth.tar'') = Some [] \<longrightarrow>
      load_checkpoint (SelStr d) fl ign add lc t = (Some NoCheckpointFound, t))"
proof (intro conjI impI)
  assume g: "glob (fsys t) (numbered_pattern t) = Some []"
  then have r: "resolve SelNone t = Inr None"
    by (simp add: resolve_def)
  then show l: "\<And>fl ign add lc. load_checkpoint SelNone fl ign add lc t = (None, t\<lparr>events := events t @ [NoMatchingCheckpoint]\<rparr>)"
    by (simp add: load_checkpoint_def say_def)
  show a: "attempt te m True lif (ep, t) =
        epochs_loop te [epoch t + 1 .. m] (ep, t\<lparr>events := events t @ [NoMatchingCheckpoint]\<rparr>)"
    by (simp add: attempt_def l)
  assume c: "epoch t < m \<and> te (calls t) = Crash"
  then have "[epoch t + 1 .. m] = (epoch t + 1) # [epoch t + 1 + 1 .. m]"
    by (simp add: upto_rec1)
  then show "attempt te m True lif (ep, t) =
           (Some (EpochFailure (calls t)), epoch t + 1,
            t\<lparr>events := events t @ [NoMatchingCheckpoint], epoch := epoch t + 1,
               calls := Suc (calls t)\<rparr>)"
    using c by (simp add: a epoch_body_def train_epoch_def)
next
  show "epoch (init u) = 0" by (simp add: init_def)
next
  assume "os_isdir (fsys t) d \<and> glob (fsys t) (d @ ''/*_ep*.pth.tar'') = Some []"
  then have "resolve (SelStr d) t = Inl NoCheckpointFound"
    by (simp add: resolve_def)
  then show "load_checkpoint (SelStr d) fl ign add lc t = (Some NoCheckpointFound, t)"
    by (simp add: load_checkpoint_def)
qed

theorem no_checkpoint_found_witness:
  "glob (fsys dir_trainer) (numbered_pattern dir_trainer) = Some [] \<and>
   fst (load_checkpoint SelNone None None None False dir_trainer) = None \<and>
   epoch dir_trainer = 2 \<and>
   fst (attempt example_scores 3 True None (2, dir_trainer)) = None \<and>
   epoch (snd (snd (attempt example_scores 3 True None (2, dir_trainer)))) = 3 \<and>
   calls (snd (snd (attempt example_scores 3 True None (2, dir_trainer)))) = 1 \<and>
   os_isdir (fsys dir_trainer) ''ckpts/'' \<and>
   glob (fsys dir_trainer) ''ckpts//*_ep*.pth.tar'' = Some [] \<and>
   load_checkpoint (SelStr ''ckpts/'') None None None False dir_trainer =
     (Some NoCheckpointFound, dir_trainer)"
proof -
  have h1: "glob (fsys dir_trainer) (numbered_pattern dir_trainer) = Some []"
    by code_simp
  have h2: "os_isdir (fsys dir_trainer) ''ckpts/''" by code_simp
  have h3: "glob (fsys dir_trainer) (''ckpts/'' @ ''/*_ep*.pth.tar'') = Some []"
    by code_simp
  have h4: "epoch dir_trainer = 2" by code_simp
  have h5: "fst (epochs_loop example_scores [epoch dir_trainer + 1 .. 3]
      (2, dir_trainer\<lparr>events := events dir_trainer @ [NoMatchingCheckpoint]\<rparr>)) = None"
    by code_simp
  have h6: "epoch (snd (snd (epochs_loop example_scores [epoch dir_trainer + 1 .. 3]
      (2, dir_trainer\<lparr>events := events dir_trainer @ [NoMatchingCheckpoint]\<rparr>)))) = 3"
    by code_simp
  have h7: "calls (snd (snd (epochs_loop example_scores [epoch dir_trainer + 1 .. 3]
      (2, dir_trainer\<lparr>events := events dir_trainer @ [NoMatchingCheckpoint]\<rparr>)))) = 1"
    by code_simp
  show ?thesis
    using no_checkpoint_found[of dir_trainer None None None False example_scores 3 None 2
        example_trainer "''ckpts/''"] h1 h2 h3 h4 h5 h6 h7
    by simp
qed

text \<open>
  The claim as stated has the caller proceed from epoch 0. A run of three epochs
  without a workspace whose third call of \<^verbatim>\<open>train_epoch\<close> fails: the second try finds no
  checkpoint and goes on with epoch 3 on the state in memory, so that \<^verbatim>\<open>train_epoch\<close>
  is called four times in all and not six.
\<close>

theorem proceeds_from_epoch_0_counterexample:
  "fst (train third_call_fails 3 False True None no_workspace_trainer) = None \<and>
   events (snd (train third_call_fails 3 False True None no_workspace_trainer)) =
     [Crashed 3, TracebackHeader, Traceback (EpochFailure 2), Restarting,
      NoMatchingCheckpoint, Finished] \<and>
   calls (snd (train third_call_fails 3 False True None no_workspace_trainer)) = 4 \<and>
   epoch (snd (train third_call_fails 3 False True None no_workspace_trainer)) = 3"
  by code_simp

section \<open>The check of the network type\<close>

lemma update_scheduler_error: "update_scheduler fl t = (Some e, t') \<Longrightarrow> e = AttributeError"
  by (auto simp: update_scheduler_def split: if_splits option.splits)

lemma check_net_type_str:
  "check_net_type cur (VStr r) = (if sublist r cur then None else Some AssertionError)"
  by (auto simp: check_net_type_def str_in_sublist)

lemma load_from_assertion:
  assumes "torch_load p (fsys t) = Inr ck" and "map_of ck ''net_type'' = Some (VStr r)"
  shows "(fst (load_from p resume fl ign add lc t) = Some AssertionError) = (\<not> sublist r (net_type t))"
proof -
  let ?t = "say [CurrentEpoch (epoch t), LoadFrom p] t"
  let ?fl = "case fl of None \<Rightarrow> map fst ck | Some l \<Rightarrow> l"
  have ld: "torch_load p (fsys ?t) = Inr ck" using assms(1) by (simp add: say_fsys)
  have nt: "net_type ?t = net_type t" by (simp add: say_def)
  show ?thesis
  proof (cases "sublist r (net_type t)")
    case False
    then show ?thesis using ld assms(2) nt
      by (simp add: load_from_def Let_def check_net_type_str)
  next
    case True
    obtain r1 t1 where lf: "load_fields ck (ignore_list ign add) ?fl ?t = (r1, t1)"
      by (cases "load_fields ck (ignore_list ign add) ?fl ?t") auto
    show ?thesis
    proof (cases r1)
      case (Some e)
      then have "e \<noteq> AssertionError" using lf load_fields_error by blast
      then show ?thesis using True ld assms(2) nt lf Some
        by (simp add: load_from_def Let_def check_net_type_str)
    next
      case None
      let ?t4 = "set_net_info lc ck (say [CurrentEpoch (epoch (reset_unless_resume resume t1))] (reset_unless_resume resume t1))"
      obtain r2 t5 where us: "update_scheduler ?fl ?t4 = (r2, t5)"
        by (cases "update_scheduler ?fl ?t4") auto
      have "r2 \<noteq> Some AssertionError" using update_scheduler_error[of ?fl ?t4 _ t5] us by auto
      then show ?thesis using True ld assms(2) nt lf None us
        by (simp add: load_from_def Let_def check_net_type_str)
    qed
  qed
qed

text \<open>
  Claim C6, as amended. A load that reads a checkpoint file whose \<^verbatim>\<open>net_type\<close> is a
  string fails with the assertion of line 225 exactly when the recorded type does not
  occur in the current type name as a contiguous substring (an equal name occurs in it).
  The recorded type may occur anywhere in the current name, not only at its start.
\<close>

theorem net_type_assertion:
  assumes "resolve sel t = Inr (Some (p, resume))"
    and "torch_load p (fsys t) = Inr ck"
    and "map_of ck ''net_type'' = Some (VStr r)"
  shows "(fst (load_checkpoint sel fl ign add lc t) = Some AssertionError) = (\<not> sublist r (net_type t))"
  using assms load_from_assertion[OF assms(2,3)] by (simp add: load_checkpoint_def)

theorem net_type_assertion_witness:
  "resolve (SelStr ''old/run.pth.tar'') substring_trainer = Inr (Some (''old/run.pth.tar'', False)) \<and>
   torch_load ''old/run.pth.tar'' (fsys substring_trainer) = Inr (example_ckpt ''Net'' 7) \<and>
   map_of (example_ckpt ''Net'' 7) ''net_type'' = Some (VStr ''Net'') \<and>
   sublist ''Net'' (net_type substring_trainer) \<and>
   fst (load_checkpoint (SelStr ''old/run.pth.tar'') None None None False substring_trainer) \<noteq> Some AssertionError"
proof -
  have h1: "resolve (SelStr ''old/run.pth.tar'') substring_trainer = Inr (Some (''old/run.pth.tar'', False))"
    by code_simp
  have h2: "torch_load ''old/run.pth.tar'' (fsys substring_trainer) = Inr (example_ckpt ''Net'' 7)"
    by code_simp
  have h3: "map_of (example_ckpt ''Net'' 7) ''net_type'' = Some (VStr ''Net'')" by code_simp
  have h4: "sublist ''Net'' (net_type substring_trainer)" by code_simp
  show ?thesis
    using net_type_assertion[OF h1 h2 h3, of None None None False] h1 h2 h3 h4 by simp
qed

text \<open>
  The claim as stated speaks of a prefix. The recorded type \<^verbatim>\<open>Net\<close> differs from the
  current type \<^verbatim>\<open>GLUNet\<close> and neither is a prefix of the other, and the load from the
  explicit file path succeeds.
\<close>

theorem prefix_claim_counterexample:
  "''Net'' \<noteq> net_type substring_trainer \<and>
   \<not> prefix ''Net'' (net_type substring_trainer) \<and>
   \<not> prefix (net_type substring_trainer) ''Net'' \<and>
   \<not> os_isdir (fsys substring_trainer) ''old/run.pth.tar'' \<and>
   torch_load ''old/run.pth.tar'' (fsys substring_trainer) = Inr (example_ckpt ''Net'' 7) \<and>
   map_of (example_ckpt ''Net'' 7) ''net_type'' = Some (VStr ''Net'') \<and>
   fst (load_checkpoint (SelStr ''old/run.pth.tar'') None None None False substring_trainer) = None"
  by code_simp

section \<open>The store after a save\<close>

lemma map_of_filter_key:
  "map_of (filter (\<lambda>e. fst e \<noteq> p) fs) q = (if q = p then None else map_of fs q)"
  by (induction fs) auto

lemma node_of_root: "node_of es [] = Some Dir"
  by (simp add: node_of_def)

lemma node_of_put:
  "node_of (entries (fs_put k n fs)) k' =
     (if k' = [] then Some Dir else if k' = k then Some n else node_of (entries fs) k')"
  by (simp add: node_of_def fs_put_def map_of_filter_key)

lemma node_of_del:
  "node_of (entries (fs_del k fs)) k' =
     (if k' = [] then Some Dir else if k' = k then None else node_of (entries fs) k')"
  by (simp add: node_of_def fs_del_def map_of_filter_key)

lemma cwd_put: "cwd (fs_put k n fs) = cwd fs"
  by (simp add: fs_put_def)

lemma cwd_del: "cwd (fs_del k fs) = cwd fs"
  by (simp add: fs_del_def)

text \<open>Path resolution reads the directories only.\<close>

lemma walk_cong:
  assumes "\<And>k. (node_of es k = Some Dir) = (node_of es' k = Some Dir)"
  shows "walk es cur cs = walk es' cur cs"
  using assms by (induction cs arbitrary: cur) auto

lemma locate_cong:
  assumes "\<And>k. (node_of (entries fs) k = Some Dir) = (node_of (entries fs') k = Some Dir)"
    and "cwd fs' = cwd fs"
  shows "locate fs p = locate fs' p"
  using walk_cong[of "entries fs" "entries fs'", OF assms(1)] assms(2) by (simp add: locate_def)

lemma locate_put_file:
  assumes "node_of (entries fs) k \<noteq> Some Dir"
  shows "locate (fs_put k (File c) fs) p = locate fs p"
proof (rule locate_cong[symmetric])
  show "(node_of (entries fs) k' = Some Dir) = (node_of (entries (fs_put k (File c) fs)) k' = Some Dir)" for k'
    using assms by (cases "k' = k") (auto simp: node_of_put node_of_root)
  show "cwd (fs_put k (File c) fs) = cwd fs" by (rule cwd_put)
qed

lemma locate_del_file:
  assumes "node_of (entries fs) k \<noteq> Some Dir"
  shows "locate (fs_del k fs) p = locate fs p"
proof (rule locate_cong[symmetric])
  show "(node_of (entries fs) k' = Some Dir) = (node_of (entries (fs_del k fs)) k' = Some Dir)" for k'
    using assms by (cases "k' = k") (auto simp: node_of_del node_of_root)
  show "cwd (fs_del k fs) = cwd fs" by (rule cwd_del)
qed

text \<open>A rename that succeeds leaves the content of the source under the destination.\<close>

lemma os_rename_success:
  assumes "os_rename src dst fs = Inr fs'"
  shows "\<exists>c. lookup fs src = Some (File c) \<and> lookup fs' dst = Some (File c)"
proof -
  from assms obtain ks where ks: "locate fs src = Some ks"
    by (auto simp: os_rename_def split: option.splits)
  from assms ks obtain c where c: "node_of (entries fs) ks = Some (File c)"
    by (auto simp: os_rename_def split: option.splits node.splits)
  from assms ks c obtain kd where kd: "locate fs dst = Some kd"
    by (auto simp: os_rename_def split: option.splits)
  from assms ks c kd have nd: "node_of (entries fs) kd \<noteq> Some Dir"
    and fs': "fs' = fs_put kd (File c) (fs_del ks fs)"
    by (auto simp: os_rename_def split: if_splits)
  from nd have kd0: "kd \<noteq> []" by (auto simp: node_of_root)
  from c have 1: "node_of (entries fs) ks \<noteq> Some Dir" by simp
  from nd kd0 have 2: "node_of (entries (fs_del ks fs)) kd \<noteq> Some Dir"
    by (auto simp: node_of_del)
  have "locate fs' dst = Some kd"
    unfolding fs' by (simp add: locate_put_file[OF 2] locate_del_file[OF 1] kd)
  then have "lookup fs' dst = Some (File c)"
    using kd0 by (simp add: lookup_def fs' node_of_put)
  moreover have "lookup fs src = Some (File c)" using ks c by (simp add: lookup_def)
  ultimately show ?thesis by blast
qed

lemma torch_save_success:
  assumes "torch_save st p fs = (None, ws)"
  shows "lookup (last ws) p = Some (File (Complete st))"
proof -
  from assms obtain k where k: "locate fs p = Some k"
    by (auto simp: torch_save_def split: option.splits)
  from assms k have nd: "node_of (entries fs) k \<noteq> Some Dir"
    and ws: "ws = [fs_put k (File Partial) fs, fs_put k (File (Complete st)) fs]"
    by (auto simp: torch_save_def split: if_splits)
  from nd have "k \<noteq> []" by (auto simp: node_of_root)
  then show ?thesis
    by (simp add: ws lookup_def locate_put_file[OF nd] k node_of_put)
qed

lemma save_fs_success:
  assumes "save_fs st d tmp final fs0 = (None, tr)"
  shows "lookup (last tr) final = Some (File (Complete st))"
proof -
  obtain r1 fs1 where m: "(if os_exists fs0 d then (None, fs0) else os_makedirs d fs0) = (r1, fs1)"
    by (cases "if os_exists fs0 d then (None, fs0) else os_makedirs d fs0") auto
  obtain r2 ws where ts: "torch_save st tmp fs1 = (r2, ws)"
    by (cases "torch_save st tmp fs1") auto
  from assms m have r1: "r1 = None" by (cases r1) (auto simp: save_fs_def)
  from assms m r1 ts have r2: "r2 = None" by (cases r2) (auto simp: save_fs_def)
  from assms m r1 ts r2 obtain fs3 where rn: "os_rename tmp final (last ws) = Inr fs3"
    and tr: "tr = [fs0, fs1] @ ws @ [fs3]"
    by (cases "os_rename tmp final (last ws)") (auto simp: save_fs_def)
  from torch_save_success[of st tmp fs1 ws] ts r2
  have "lookup (last ws) tmp = Some (File (Complete st))" by simp
  with os_rename_success[OF rn] have "lookup fs3 final = Some (File (Complete st))" by auto
  with tr show ?thesis by simp
qed

lemma flt_lt_irrefl: "\<not> flt_lt a a"
  by (cases a) auto

lemma flt_lt_trans: "flt_lt a b \<Longrightarrow> flt_lt b c \<Longrightarrow> flt_lt a c"
  by (cases a; cases b; cases c) auto

lemma flt_le_refl: "flt_le a a"
  by (simp add: flt_le_def)

lemma flt_le_trans: "flt_le a b \<Longrightarrow> flt_le b c \<Longrightarrow> flt_le a c"
  by (auto simp: flt_le_def dest: flt_lt_trans)

lemma save_checkpoint_some:
  assumes "lr_scheduler t = Some sch"
  shows "save_checkpoint name t =
     (fst (save_fs (checkpoint_state t sch) (directory t) (tmp_path t name) (file_path t name) (fsys t)),
      t\<lparr>fsys := last (snd (save_fs (checkpoint_state t sch) (directory t) (tmp_path t name)
          (file_path t name) (fsys t)))\<rparr>)"
  using assms by (simp add: save_checkpoint_def split: prod.split)

lemma save_checkpoint_frame:
  assumes "save_checkpoint name t = (r, t')"
  shows "\<exists>fs'. t' = t\<lparr>fsys := fs'\<rparr>"
proof (cases "lr_scheduler t")
  case None
  with assms have "t' = t" by (simp add: save_checkpoint_def)
  then have "t' = t\<lparr>fsys := fsys t\<rparr>" by simp
  then show ?thesis ..
next
  case (Some sch)
  from assms show ?thesis unfolding save_checkpoint_some[OF Some] by blast
qed

lemma save_checkpoint_success:
  assumes "save_checkpoint name t = (None, t')"
  shows "\<exists>sch. lr_scheduler t = Some sch \<and>
           lookup (fsys t') (file_path t name) = Some (File (Complete (checkpoint_state t sch)))"
proof (cases "lr_scheduler t")
  case None
  then show ?thesis using assms by (simp add: save_checkpoint_def)
next
  case (Some sch)
  let ?sf = "save_fs (checkpoint_state t sch) (directory t) (tmp_path t name) (file_path t name) (fsys t)"
  from assms have 1: "fst ?sf = None" and 2: "t' = t\<lparr>fsys := last (snd ?sf)\<rparr>"
    unfolding save_checkpoint_some[OF Some] by simp_all
  from 1 have "?sf = (None, snd ?sf)" by (metis prod.collapse)
  then have "lookup (last (snd ?sf)) (file_path t name) = Some (File (Complete (checkpoint_state t sch)))"
    by (rule save_fs_success)
  with Some 2 show ?thesis by simp
qed


lemma map_of_checkpoint_state:
  "map_of (checkpoint_state t sch) ''epoch'' = Some (VInt (epoch t))"
  "map_of (checkpoint_state t sch) ''stats'' = Some (VStats (stats t))"
  "map_of (checkpoint_state t sch) ''best_val'' = Some (VFloat (best_val t))"
  "map_of (checkpoint_state t sch) ''epoch_of_best_val'' = Some (VInt (epoch_of_best_val t))"
  "map_of (checkpoint_state t sch) ''net_type'' = Some (VStr (net_type t))"
  by (simp_all add: checkpoint_state_def)

lemma save_best_none: "current_best_val t = None \<Longrightarrow> save_best t = (None, t)"
  by (simp add: save_best_def)

lemma save_best_worse:
  "current_best_val t = Some c \<Longrightarrow> \<not> flt_lt c (best_val t) \<Longrightarrow> save_best t = (None, t)"
  by (simp add: save_best_def)

lemma save_best_better:
  "current_best_val t = Some c \<Longrightarrow> flt_lt c (best_val t) \<Longrightarrow>
   save_best t = save_checkpoint (Some ''model_best'')
      ((say [ValidationImproved (best_val t) (epoch_of_best_val t) c (epoch t)] t)
          \<lparr>best_val := c, epoch_of_best_val := epoch t\<rparr>)"
  by (simp add: save_best_def)

section \<open>The decision on the best model\<close>

text \<open>
  Claim C4. The test of lines 86 to 94, on the score \<^verbatim>\<open>current_best_val\<close> that the epoch
  left: when there is no score the trainer is unchanged; when the score is strictly
  below \<^verbatim>\<open>best_val\<close> (and only then) \<^verbatim>\<open>best_val\<close> becomes the score,
  \<^verbatim>\<open>epoch_of_best_val\<close> becomes the current epoch and the checkpoint \<^verbatim>\<open>model_best\<close> is
  saved (after a save that succeeds the store holds, under that name, a complete
  checkpoint with the new values); when the score is not strictly below, the trainer
  and the store are unchanged.
\<close>

theorem best_model_decision:
  "(case current_best_val t of
      None \<Rightarrow> save_best t = (None, t)
    | Some c \<Rightarrow>
        if flt_lt c (best_val t) then
          best_val (snd (save_best t)) = c \<and>
          epoch_of_best_val (snd (save_best t)) = epoch t \<and>
          (fst (save_best t) = None \<longrightarrow>
             (\<exists>ck. lookup (fsys (snd (save_best t))) (named_path t ''model_best'') =
                      Some (File (Complete ck)) \<and>
                   map_of ck ''best_val'' = Some (VFloat c) \<and>
                   map_of ck ''epoch_of_best_val'' = Some (VInt (epoch t)) \<and>
                   map_of ck ''epoch'' = Some (VInt (epoch t))))
        else save_best t = (None, t))"
proof (cases "current_best_val t")
  case None
  then show ?thesis by (simp add: save_best_none)
next
  case (Some c)
  show ?thesis
  proof (cases "flt_lt c (best_val t)")
    case False
    with Some show ?thesis by (simp add: save_best_worse)
  next
    case True
    let ?u = "(say [ValidationImproved (best_val t) (epoch_of_best_val t) c (epoch t)] t)
          \<lparr>best_val := c, epoch_of_best_val := epoch t\<rparr>"
    have sb: "save_best t = save_checkpoint (Some ''model_best'') ?u"
      using Some True by (rule save_best_better)
    obtain r t' where sc: "save_checkpoint (Some ''model_best'') ?u = (r, t')"
      by (cases "save_checkpoint (Some ''model_best'') ?u") auto
    from save_checkpoint_frame[OF sc] obtain fs' where t': "t' = ?u\<lparr>fsys := fs'\<rparr>" ..
    have 1: "best_val t' = c" "epoch_of_best_val t' = epoch t"
      by (simp_all add: t' say_def)
    have 2: "\<exists>ck. lookup (fsys t') (named_path t ''model_best'') = Some (File (Complete ck)) \<and>
                   map_of ck ''best_val'' = Some (VFloat c) \<and>
                   map_of ck ''epoch_of_best_val'' = Some (VInt (epoch t)) \<and>
                   map_of ck ''epoch'' = Some (VInt (epoch t))" if "r = None"
    proof -
      from sc that have "save_checkpoint (Some ''model_best'') ?u = (None, t')" by simp
      from save_checkpoint_success[OF this] obtain sch where
        lk: "lookup (fsys t') (file_path ?u (Some ''model_best'')) = Some (File (Complete (checkpoint_state ?u sch)))"
        by blast
      have fp: "file_path ?u (Some ''model_best'') = named_path t ''model_best''"
        by (simp add: file_path_def named_path_def directory_def say_def)
      have "map_of (checkpoint_state ?u sch) ''best_val'' = Some (VFloat c)"
           "map_of (checkpoint_state ?u sch) ''epoch_of_best_val'' = Some (VInt (epoch t))"
           "map_of (checkpoint_state ?u sch) ''epoch'' = Some (VInt (epoch t))"
        by (simp_all add: map_of_checkpoint_state say_def)
      with lk fp show ?thesis by auto
    qed
    show ?thesis using Some True sb sc 1 2 by simp
  qed
qed

theorem best_model_decision_witness:
  "current_best_val scored_trainer = Some (Finite 3) \<and>
   flt_lt (Finite 3) (best_val scored_trainer) \<and>
   fst (save_best scored_trainer) = None \<and>
   best_val (snd (save_best scored_trainer)) = Finite 3 \<and>
   epoch_of_best_val (snd (save_best scored_trainer)) = 4 \<and>
   (\<exists>ck. lookup (fsys (snd (save_best scored_trainer))) ''ws/proj/GLUNet_model_best.pth.tar'' =
            Some (File (Complete ck)) \<and>
         map_of ck ''best_val'' = Some (VFloat (Finite 3)) \<and>
         map_of ck ''epoch_of_best_val'' = Some (VInt 4) \<and>
         map_of ck ''epoch'' = Some (VInt 4))"
proof -
  have h1: "current_best_val scored_trainer = Some (Finite 3)" by code_simp
  have h2: "flt_lt (Finite 3) (best_val scored_trainer)" by (simp add: scored_trainer_def)
  have h3: "fst (save_best scored_trainer) = None" by code_simp
  have h4: "named_path scored_trainer ''model_best'' = ''ws/proj/GLUNet_model_best.pth.tar''"
    by code_simp
  have h5: "epoch scored_trainer = 4" by code_simp
  show ?thesis
    using best_model_decision[of scored_trainer] h1 h2 h3 h4 h5 by simp
qed

section \<open>The best validation score across the epochs\<close>

lemma delete_old_checkpoints_frame:
  assumes "delete_old_checkpoints t = (r, t')"
  shows "\<exists>fs'. t' = t\<lparr>fsys := fs'\<rparr>"
proof (cases "ckpts_to_remove t")
  case None
  with assms have "t' = t" by (simp add: delete_old_checkpoints_def)
  then have "t' = t\<lparr>fsys := fsys t\<rparr>" by simp
  then show ?thesis ..
next
  case (Some ps)
  with assms show ?thesis by (auto simp: delete_old_checkpoints_def split: prod.splits)
qed

lemma save_numbered_frame:
  assumes "save_numbered t = (r, t')"
  shows "\<exists>fs'. t' = t\<lparr>fsys := fs'\<rparr>"
proof (cases "base_save_dir t \<noteq> None \<and> base_save_dir t \<noteq> Some []")
  case False
  with assms have "t' = t" by (auto simp: save_numbered_def)
  then have "t' = t\<lparr>fsys := fsys t\<rparr>" by simp
  then show ?thesis ..
next
  case True
  obtain r1 t1 where sc: "save_checkpoint None t = (r1, t1)"
    by (cases "save_checkpoint None t") auto
  from save_checkpoint_frame[OF sc] obtain fs1 where t1: "t1 = t\<lparr>fsys := fs1\<rparr>" ..
  show ?thesis
  proof (cases r1)
    case (Some e)
    with assms True sc have "t' = t1" by (simp add: save_numbered_def)
    with t1 show ?thesis by blast
  next
    case None
    with assms True sc have "delete_old_checkpoints t1 = (r, t')" by (simp add: save_numbered_def)
    from delete_old_checkpoints_frame[OF this] obtain fs2 where "t' = t1\<lparr>fsys := fs2\<rparr>" ..
    with t1 have "t' = t\<lparr>fsys := fs2\<rparr>" by simp
    then show ?thesis ..
  qed
qed

lemma train_epoch_best:
  assumes "train_epoch te t = (r, t')"
  shows "best_val t' = best_val t \<and> epoch_of_best_val t' = epoch_of_best_val t \<and> epoch t' = epoch t"
  using assms by (cases "te (calls t)") (auto simp: train_epoch_def)

lemma update_scheduler_step_best:
  "best_val (update_scheduler_step t) = best_val t \<and>
   epoch_of_best_val (update_scheduler_step t) = epoch_of_best_val t \<and>
   epoch (update_scheduler_step t) = epoch t"
  by (cases "lr_scheduler t") (simp_all add: update_scheduler_step_def)

lemma save_best_best:
  assumes "save_best t = (r, t')"
  shows "(flt_lt (best_val t') (best_val t) \<and> epoch_of_best_val t' = epoch t) \<or>
         (best_val t' = best_val t \<and> epoch_of_best_val t' = epoch_of_best_val t)"
proof (cases "current_best_val t")
  case None
  with assms show ?thesis by (simp add: save_best_none)
next
  case (Some c)
  show ?thesis
  proof (cases "flt_lt c (best_val t)")
    case False
    with Some assms show ?thesis by (simp add: save_best_worse)
  next
    case True
    let ?u = "(say [ValidationImproved (best_val t) (epoch_of_best_val t) c (epoch t)] t)
          \<lparr>best_val := c, epoch_of_best_val := epoch t\<rparr>"
    from assms have "save_checkpoint (Some ''model_best'') ?u = (r, t')"
      using save_best_better[OF Some True] by simp
    from save_checkpoint_frame[OF this] obtain fs' where "t' = ?u\<lparr>fsys := fs'\<rparr>" ..
    then have "best_val t' = c" "epoch_of_best_val t' = epoch t" by (simp_all add: say_def)
    with True show ?thesis by simp
  qed
qed

lemma epoch_body_best:
  assumes "epoch_body te e t = (r, t')"
  shows "(flt_lt (best_val t') (best_val t) \<and> epoch_of_best_val t' = e) \<or>
         (best_val t' = best_val t \<and> epoch_of_best_val t' = epoch_of_best_val t)"
proof -
  obtain r1 t1 where te: "train_epoch te (t\<lparr>epoch := e\<rparr>) = (r1, t1)"
    by (cases "train_epoch te (t\<lparr>epoch := e\<rparr>)") auto
  from train_epoch_best[OF te]
  have 1: "best_val t1 = best_val t" "epoch_of_best_val t1 = epoch_of_best_val t" "epoch t1 = e"
    by simp_all
  show ?thesis
  proof (cases r1)
    case (Some err)
    with assms te have "t' = t1" by (simp add: epoch_body_def)
    with 1 show ?thesis by simp
  next
    case None
    let ?u = "update_scheduler_step t1"
    have 2: "best_val ?u = best_val t" "epoch_of_best_val ?u = epoch_of_best_val t" "epoch ?u = e"
      using 1 by (simp_all add: update_scheduler_step_best)
    obtain r2 t2 where sb: "save_best ?u = (r2, t2)"
      by (cases "save_best ?u") auto
    from save_best_best[OF sb] 2
    have 3: "(flt_lt (best_val t2) (best_val t) \<and> epoch_of_best_val t2 = e) \<or>
         (best_val t2 = best_val t \<and> epoch_of_best_val t2 = epoch_of_best_val t)"
      by simp
    show ?thesis
    proof (cases r2)
      case (Some err)
      with assms te None sb have "t' = t2" by (simp add: epoch_body_def)
      with 3 show ?thesis by simp
    next
      case None2: None
      with assms te None sb have "save_numbered (t2\<lparr>just_started := False\<rparr>) = (r, t')"
        by (simp add: epoch_body_def)
      from save_numbered_frame[OF this] obtain fs' where "t' = t2\<lparr>just_started := False, fsys := fs'\<rparr>"
        by auto
      then have "best_val t' = best_val t2" "epoch_of_best_val t' = epoch_of_best_val t2" by simp_all
      with 3 show ?thesis by simp
    qed
  qed
qed

lemma epochs_loop_best:
  "epochs_loop te es (ep, t) = (r, ep', t') \<Longrightarrow>
     (flt_lt (best_val t') (best_val t) \<and> epoch_of_best_val t' \<in> set es) \<or>
     (best_val t' = best_val t \<and> epoch_of_best_val t' = epoch_of_best_val t)"
proof (induction es arbitrary: ep t)
  case Nil
  then show ?case by simp
next
  case (Cons e es)
  obtain r1 t1 where eb: "epoch_body te e t = (r1, t1)"
    by (cases "epoch_body te e t") auto
  note step = epoch_body_best[OF eb]
  show ?case
  proof (cases r1)
    case (Some err)
    with Cons.prems eb have "t' = t1" by simp
    with step show ?thesis by auto
  next
    case None
    with Cons.prems eb have "epochs_loop te es (e, t1) = (r, ep', t')" by simp
    from Cons.IH[OF this] step show ?thesis
      by (auto dest: flt_lt_trans)
  qed
qed

lemma epochs_loop_append:
  "epochs_loop te (xs @ ys) (ep, t) =
     (case epochs_loop te xs (ep, t) of
        (None, ep', t') \<Rightarrow> epochs_loop te ys (ep', t')
      | (Some e, s) \<Rightarrow> (Some e, s))"
  by (induction xs arbitrary: ep t) (auto split: prod.splits option.splits)

lemma flt_lt_le: "flt_lt a b \<or> a = b \<Longrightarrow> flt_le a b"
  by (simp add: flt_le_def)

text \<open>
  Claim C5, as amended. Across the epochs of one pass of the loop of \<^verbatim>\<open>train\<close> (no
  checkpoint is loaded in between), \<^verbatim>\<open>best_val\<close> never increases (\<^verbatim>\<open>__init__\<close> sets it
  to infinity), and \<^verbatim>\<open>epoch_of_best_val\<close> is the last epoch at which it strictly
  decreased: for a pass over the epochs \<open>es1\<close>, then \<open>e\<close>, then \<open>es2\<close>, \<^verbatim>\<open>best_val\<close> after
  each part is at most its value before; when it strictly decreased at \<open>e\<close> and not
  afterwards, \<^verbatim>\<open>epoch_of_best_val\<close> is \<open>e\<close> at the end; and when it did not decrease at
  all, \<^verbatim>\<open>epoch_of_best_val\<close> is unchanged. An epoch that fails ends the pass with the
  state it reached.
\<close>

theorem best_val_non_increasing:
  assumes "epochs_loop te es1 (ep, t) = (None, ep1, t1)"
    and "epoch_body te e t1 = (r2, t2)"
    and "epochs_loop te (e # es2) (ep1, t1) = (r, ep3, t3)"
  shows "epochs_loop te (es1 @ e # es2) (ep, t) = (r, ep3, t3) \<and>
         flt_le (best_val t1) (best_val t) \<and>
         flt_le (best_val t2) (best_val t1) \<and>
         flt_le (best_val t3) (best_val t2) \<and>
         (flt_lt (best_val t2) (best_val t1) \<and> best_val t3 = best_val t2
            \<longrightarrow> epoch_of_best_val t3 = e) \<and>
         (best_val t3 = best_val t \<longrightarrow> epoch_of_best_val t3 = epoch_of_best_val t) \<and>
         best_val (init u) = PosInf"
proof -
  have whole: "epochs_loop te (es1 @ e # es2) (ep, t) = (r, ep3, t3)"
    using assms(1,3) by (simp add: epochs_loop_append)
  note a = epochs_loop_best[OF assms(1)]
  note b = epoch_body_best[OF assms(2)]
  have c: "(flt_lt (best_val t3) (best_val t2) \<and> epoch_of_best_val t3 \<in> set es2) \<or>
     (best_val t3 = best_val t2 \<and> epoch_of_best_val t3 = epoch_of_best_val t2)"
  proof (cases r2)
    case (Some err)
    with assms(2,3) have "t3 = t2" by simp
    then show ?thesis by simp
  next
    case None
    with assms(2,3) have "epochs_loop te es2 (e, t2) = (r, ep3, t3)" by simp
    then show ?thesis by (rule epochs_loop_best)
  qed
  note d = epochs_loop_best[OF whole]
  have 1: "flt_le (best_val t1) (best_val t)" using a by (auto intro: flt_lt_le)
  have 2: "flt_le (best_val t2) (best_val t1)" using b by (auto intro: flt_lt_le)
  have 3: "flt_le (best_val t3) (best_val t2)" using c by (auto intro: flt_lt_le)
  have 4: "flt_lt (best_val t2) (best_val t1) \<and> best_val t3 = best_val t2
            \<longrightarrow> epoch_of_best_val t3 = e"
    using b c by (auto simp: flt_lt_irrefl)
  have 5: "best_val t3 = best_val t \<longrightarrow> epoch_of_best_val t3 = epoch_of_best_val t"
    using d by (auto simp: flt_lt_irrefl)
  have 6: "best_val (init u) = PosInf" by (simp add: init_def)
  from whole 1 2 3 4 5 6 show ?thesis by simp
qed

theorem best_val_non_increasing_witness:
  "epochs_loop example_scores [1] (0, init example_trainer) = (None, 1, scores_t1) \<and>
   epoch_body example_scores 2 scores_t1 = (None, scores_t2) \<and>
   epochs_loop example_scores [2, 3] (1, scores_t1) = (None, 3, scores_t3) \<and>
   epochs_loop example_scores [1, 2, 3] (0, init example_trainer) = (None, 3, scores_t3) \<and>
   best_val (init example_trainer) = PosInf \<and>
   best_val scores_t1 = Finite 5 \<and> best_val scores_t2 = Finite 3 \<and> best_val scores_t3 = Finite 3 \<and>
   flt_lt (best_val scores_t2) (best_val scores_t1) \<and>
   epoch_of_best_val scores_t3 = 2"
proof -
  have h1: "epochs_loop example_scores [1] (0, init example_trainer) = (None, 1, scores_t1)"
    by code_simp
  have h2: "epoch_body example_scores 2 scores_t1 = (None, scores_t2)" by code_simp
  have h3: "epochs_loop example_scores [2, 3] (1, scores_t1) = (None, 3, scores_t3)" by code_simp
  have h4: "best_val scores_t1 = Finite 5" by code_simp
  have h5: "best_val scores_t2 = Finite 3" by code_simp
  have h6: "best_val scores_t3 = Finite 3" by code_simp
  show ?thesis
    using best_val_non_increasing[OF h1 h2 h3, of example_trainer] h1 h2 h3 h4 h5 h6 by simp
qed

text \<open>
  The claim as stated speaks of the training run. A run with \<^verbatim>\<open>fail_safe\<close> loads the
  latest numbered checkpoint after a failure, and line 91 has set \<^verbatim>\<open>best_val\<close> before
  the saves of lines 94 and 99: when the numbered save of epoch 2 fails, the second try
  loads the checkpoint of epoch 1 and \<^verbatim>\<open>best_val\<close> goes from 3 back to 5; the run ends
  with \<^verbatim>\<open>best_val\<close> 4 although the score 3 was seen.
\<close>

theorem best_val_rises_counterexample:
  "fst (attempt example_scores 2 False None (- 1, blocked_trainer\<lparr>just_started := True\<rparr>)) =
     Some TorchSaveError \<and>
   best_val blocked_t1 = Finite 3 \<and> epoch_of_best_val blocked_t1 = 2 \<and>
   best_val blocked_t2 = Finite 5 \<and> epoch_of_best_val blocked_t2 = 1 \<and>
   \<not> flt_le (best_val blocked_t2) (best_val blocked_t1) \<and>
   fst (train example_scores 2 False True None blocked_trainer) = None \<and>
   best_val (snd (train example_scores 2 False True None blocked_trainer)) = Finite 4"
  by code_simp

section \<open>The tries of \<^verbatim>\<open>train\<close>\<close>

lemma on_crash_epoch: "epoch (on_crash e ep t) = epoch t - 1"
  by (simp add: on_crash_def say_def Let_def)

lemma on_crash_events:
  "events (on_crash e ep t) = events t @ [Crashed ep, TracebackHeader, Traceback e, Restarting]"
  by (simp add: on_crash_def say_def Let_def)

lemma tries_fail_safe_result:
  "fst (tries te m True lif n ll s) = None \<or> fst (tries te m True lif n ll s) = Some Unmodelled"
proof (induction n arbitrary: ll s)
  case 0
  then show ?case by (cases s) simp
next
  case (Suc n)
  obtain ep t where s: "s = (ep, t)" by (cases s)
  obtain r ep' t' where a: "attempt te m ll lif (ep, t) = (r, ep', t')"
    by (cases "attempt te m ll lif (ep, t)") auto
  show ?case
  proof (cases r)
    case None
    with s a Suc.IH[of ll "(ep', t')"] show ?thesis by simp
  next
    case (Some e)
    with s a Suc.IH[of True "(ep', on_crash e ep' t')"] show ?thesis by simp
  qed
qed

text \<open>
  Claim C1, as amended. When the first try of \<^verbatim>\<open>train\<close> fails with an exception: without
  \<^verbatim>\<open>fail_safe\<close> the exception is raised again, after the line that names the epoch;
  with \<^verbatim>\<open>fail_safe\<close> the epoch counter is decremented by one, the failure and its
  traceback are printed, and a second and last try runs with \<^verbatim>\<open>load_latest\<close> set. A
  failure of the second try is handled in the same way and is not raised again:
  \<^verbatim>\<open>train\<close> prints its last line and returns. So a run with \<^verbatim>\<open>fail_safe\<close> never raises
  (its only other result in the embedding is \<open>Unmodelled\<close>).
\<close>

theorem train_fail_safe:
  assumes "attempt te m ll lif (- 1, t\<lparr>just_started := True\<rparr>) = (Some e1, ep1, t1)"
    and "e1 \<noteq> Unmodelled"
  shows "train te m ll False lif t = (Some e1, say [Crashed ep1] t1) \<and>
         epoch (on_crash e1 ep1 t1) = epoch t1 - 1 \<and>
         events (on_crash e1 ep1 t1) =
           events t1 @ [Crashed ep1, TracebackHeader, Traceback e1, Restarting] \<and>
         train te m ll True lif t =
           (case attempt te m True lif (ep1, on_crash e1 ep1 t1) of
              (None, ep2, t2) \<Rightarrow> (None, say [Finished] t2)
            | (Some e2, ep2, t2) \<Rightarrow>
                if e2 = Unmodelled then (Some Unmodelled, t2)
                else (None, say [Finished] (on_crash e2 ep2 t2))) \<and>
         (fst (train te' m' ll' True lif' t') = None \<or>
          fst (train te' m' ll' True lif' t') = Some Unmodelled)"
proof -
  have 1: "train te m ll False lif t = (Some e1, say [Crashed ep1] t1)"
    using assms by (simp add: train_def numeral_2_eq_2)
  have 4: "train te m ll True lif t =
           (case attempt te m True lif (ep1, on_crash e1 ep1 t1) of
              (None, ep2, t2) \<Rightarrow> (None, say [Finished] t2)
            | (Some e2, ep2, t2) \<Rightarrow>
                if e2 = Unmodelled then (Some Unmodelled, t2)
                else (None, say [Finished] (on_crash e2 ep2 t2)))"
    using assms by (simp add: train_def numeral_2_eq_2 split: prod.splits option.splits)
  have 5: "fst (train te' m' ll' True lif' t') = None \<or>
          fst (train te' m' ll' True lif' t') = Some Unmodelled"
    unfolding train_def by (rule tries_fail_safe_result)
  from 1 4 5 show ?thesis by (simp add: on_crash_epoch on_crash_events)
qed

theorem train_fail_safe_witness:
  "attempt third_call_fails 3 False None (- 1, example_trainer\<lparr>just_started := True\<rparr>) =
     (Some (EpochFailure 2), 3, crash_t1) \<and>
   train third_call_fails 3 False False None example_trainer =
     (Some (EpochFailure 2), say [Crashed 3] crash_t1) \<and>
   epoch crash_t1 = 3 \<and>
   epoch (on_crash (EpochFailure 2) 3 crash_t1) = 2 \<and>
   train third_call_fails 3 False True None example_trainer = (None, say [Finished] crash_t2) \<and>
   epoch crash_t2 = 3 \<and> calls crash_t2 = 4"
proof -
  have h1: "attempt third_call_fails 3 False None (- 1, example_trainer\<lparr>just_started := True\<rparr>) =
     (Some (EpochFailure 2), 3, crash_t1)"
    by code_simp
  have h2: "attempt third_call_fails 3 True None (3, on_crash (EpochFailure 2) 3 crash_t1) =
     (None, 3, crash_t2)"
    by code_simp
  have h3: "epoch crash_t1 = 3" by code_simp
  have h4: "epoch crash_t2 = 3" by code_simp
  have h5: "calls crash_t2 = 4" by code_simp
  have h6: "EpochFailure 2 \<noteq> Unmodelled" by simp
  show ?thesis
    using train_fail_safe[OF h1 h6] h1 h2 h3 h4 h5 by simp
qed

text \<open>
  The claim as stated has the last failure raised again. A run of two epochs in which
  every call of \<^verbatim>\<open>train_epoch\<close> fails, with \<^verbatim>\<open>fail_safe\<close>: both tries fail, the second
  failure is printed like the first, and \<^verbatim>\<open>train\<close> returns normally after its last line.
\<close>

theorem final_failure_not_raised_counterexample:
  "fst (train always_crash 2 False True None example_trainer) = None \<and>
   events (snd (train always_crash 2 False True None example_trainer)) =
     [Crashed 1, TracebackHeader, Traceback (EpochFailure 0), Restarting,
      NoMatchingCheckpoint,
      Crashed 1, TracebackHeader, Traceback (EpochFailure 1), Restarting,
      Finished]"
  by code_simp

section \<open>Saving and loading\<close>

lemma load_fields_checkpoint_state:
  "load_fields (checkpoint_state t sch) (ignore_list None None)
     (map fst (checkpoint_state t sch)) u =
   (None, u\<lparr>epoch := epoch t, weights := weights t,
       optimizer := (if optimizer t \<noteq> 0 then optimizer t else optimizer u),
       stats := stats t, best_val := best_val t, epoch_of_best_val := epoch_of_best_val t\<rparr>)"
  by (simp add: checkpoint_state_def ignore_list_def load_field_def setattr_def)

lemma set_net_info_state:
  "epoch (set_net_info lc ck t) = epoch t \<and> stats (set_net_info lc ck t) = stats t \<and>
   best_val (set_net_info lc ck t) = best_val t \<and>
   epoch_of_best_val (set_net_info lc ck t) = epoch_of_best_val t"
  by (simp add: set_net_info_def Let_def split: option.splits)

lemma update_scheduler_state:
  assumes "lr_scheduler t \<noteq> None"
  shows "fst (update_scheduler fl t) = None \<and>
   epoch (snd (update_scheduler fl t)) = epoch t \<and> stats (snd (update_scheduler fl t)) = stats t \<and>
   best_val (snd (update_scheduler fl t)) = best_val t \<and>
   epoch_of_best_val (snd (update_scheduler fl t)) = epoch_of_best_val t"
  using assms by (auto simp: update_scheduler_def)

lemma load_from_checkpoint_state:
  assumes "torch_load p (fsys u) = Inr (checkpoint_state t sch)"
    and "sublist (net_type t) (net_type u)"
    and "lr_scheduler u \<noteq> None"
  shows "fst (load_from p True None None None lc u) = None \<and>
         epoch (snd (load_from p True None None None lc u)) = epoch t \<and>
         stats (snd (load_from p True None None None lc u)) = stats t \<and>
         best_val (snd (load_from p True None None None lc u)) = best_val t \<and>
         epoch_of_best_val (snd (load_from p True None None None lc u)) = epoch_of_best_val t"
proof -
  let ?u0 = "say [CurrentEpoch (epoch u), LoadFrom p] u"
  let ?ck = "checkpoint_state t sch"
  let ?u1 = "?u0\<lparr>epoch := epoch t, weights := weights t,
       optimizer := (if optimizer t \<noteq> 0 then optimizer t else optimizer ?u0),
       stats := stats t, best_val := best_val t, epoch_of_best_val := epoch_of_best_val t\<rparr>"
  let ?u4 = "set_net_info lc ?ck (say [CurrentEpoch (epoch ?u1)] ?u1)"
  have ld: "torch_load p (fsys ?u0) = Inr ?ck" using assms(1) by (simp add: say_fsys)
  have nt: "check_net_type (net_type ?u0) (VStr (net_type t)) = None"
    using assms(2) by (simp add: check_net_type_str say_def)
  have lf: "load_from p True None None None lc u = update_scheduler (map fst ?ck) ?u4"
    using ld nt load_fields_checkpoint_state[of t sch ?u0]
    by (simp add: load_from_def Let_def map_of_checkpoint_state reset_unless_resume_def
          del: load_fields.simps)
  have s4: "lr_scheduler ?u4 \<noteq> None"
    using assms(3) by (simp add: set_net_info_sched say_def)
  have e4: "epoch ?u4 = epoch t" "stats ?u4 = stats t" "best_val ?u4 = best_val t"
    "epoch_of_best_val ?u4 = epoch_of_best_val t"
    by (simp_all add: set_net_info_state say_def)
  show ?thesis
    unfolding lf using update_scheduler_state[OF s4, of "map fst ?ck"] e4 by simp
qed

text \<open>
  Claim C7. After a save that succeeds, a load in resume mode (by a trainer for the same
  network type, with a scheduler, on the store the save leaves) that resolves to the
  saved file succeeds and sets \<^verbatim>\<open>epoch\<close>, \<^verbatim>\<open>stats\<close>, \<^verbatim>\<open>best_val\<close> and
  \<^verbatim>\<open>epoch_of_best_val\<close> to the values the saving trainer had. The load by the epoch
  number of a numbered save, by a trainer with the same workspace and project path, is
  such a load.
\<close>

theorem save_load_round_trip:
  assumes "save_checkpoint name t = (None, t')"
    and "fsys u = fsys t'"
    and "net_type u = net_type t"
    and "lr_scheduler u \<noteq> None"
  shows "(resolve sel u = Inr (Some (p, True)) \<and>
          torch_load p (fsys u) = torch_load (file_path t name) (fsys u) \<longrightarrow>
            fst (load_checkpoint sel None None None lc u) = None \<and>
            epoch (snd (load_checkpoint sel None None None lc u)) = epoch t \<and>
            stats (snd (load_checkpoint sel None None None lc u)) = stats t \<and>
            best_val (snd (load_checkpoint sel None None None lc u)) = best_val t \<and>
            epoch_of_best_val (snd (load_checkpoint sel None None None lc u)) = epoch_of_best_val t) \<and>
         (name = None \<and> base_save_dir u = base_save_dir t \<and> project_path u = project_path t \<longrightarrow>
            resolve (SelInt (epoch t)) u = Inr (Some (file_path t name, True)))"
proof (intro conjI impI)
  assume h: "resolve sel u = Inr (Some (p, True)) \<and>
          torch_load p (fsys u) = torch_load (file_path t name) (fsys u)"
  from save_checkpoint_success[OF assms(1)] obtain sch where
    "lookup (fsys t') (file_path t name) = Some (File (Complete (checkpoint_state t sch)))"
    by blast
  with assms(2) h have ld: "torch_load p (fsys u) = Inr (checkpoint_state t sch)"
    by (simp add: torch_load_def)
  have sl: "sublist (net_type t) (net_type u)" using assms(3) by simp
  have lc: "load_checkpoint sel None None None lc u = load_from p True None None None lc u"
    using h by (simp add: load_checkpoint_def)
  note r = load_from_checkpoint_state[OF ld sl assms(4), of lc]
  show "fst (load_checkpoint sel None None None lc u) = None" using r lc by simp
  show "epoch (snd (load_checkpoint sel None None None lc u)) = epoch t" using r lc by simp
  show "stats (snd (load_checkpoint sel None None None lc u)) = stats t" using r lc by simp
  show "best_val (snd (load_checkpoint sel None None None lc u)) = best_val t" using r lc by simp
  show "epoch_of_best_val (snd (load_checkpoint sel None None None lc u)) = epoch_of_best_val t"
    using r lc by simp
next
  assume "name = None \<and> base_save_dir u = base_save_dir t \<and> project_path u = project_path t"
  then show "resolve (SelInt (epoch t)) u = Inr (Some (file_path t name, True))"
    using assms(3) by (simp add: resolve_def file_path_def numbered_path_def directory_def)
qed

theorem save_load_round_trip_witness:
  "fst (save_checkpoint None saving_trainer) = None \<and>
   resolve (SelInt 5) loading_trainer = Inr (Some (''ws/proj/GLUNet_ep0005.pth.tar'', True)) \<and>
   epoch loading_trainer = 0 \<and>
   fst (load_checkpoint (SelInt 5) None None None False loading_trainer) = None \<and>
   epoch (snd (load_checkpoint (SelInt 5) None None None False loading_trainer)) = 5 \<and>
   stats (snd (load_checkpoint (SelInt 5) None None None False loading_trainer)) = [(5, 2)] \<and>
   best_val (snd (load_checkpoint (SelInt 5) None None None False loading_trainer)) = Finite 2 \<and>
   epoch_of_best_val (snd (load_checkpoint (SelInt 5) None None None False loading_trainer)) = 4"
proof -
  have h1: "save_checkpoint None saving_trainer = (None, snd (save_checkpoint None saving_trainer))"
    by code_simp
  have h2: "fsys loading_trainer = fsys (snd (save_checkpoint None saving_trainer))"
    by (simp add: loading_trainer_def)
  have h3: "net_type loading_trainer = net_type saving_trainer" by code_simp
  have h4: "lr_scheduler loading_trainer \<noteq> None" by (simp add: loading_trainer_def example_trainer_def)
  have h5: "resolve (SelInt 5) loading_trainer = Inr (Some (''ws/proj/GLUNet_ep0005.pth.tar'', True))"
    by code_simp
  have h6: "file_path saving_trainer None = ''ws/proj/GLUNet_ep0005.pth.tar''" by code_simp
  have h7: "epoch saving_trainer = 5" "stats saving_trainer = [(5, 2)]"
    "best_val saving_trainer = Finite 2" "epoch_of_best_val saving_trainer = 4"
    by (simp_all add: saving_trainer_def)
  have h8: "epoch loading_trainer = 0" by (simp add: loading_trainer_def example_trainer_def)
  have h9: "fst (save_checkpoint None saving_trainer) = None" by code_simp
  show ?thesis
    using save_load_round_trip[OF h1 h2 h3 h4, of "SelInt 5" "''ws/proj/GLUNet_ep0005.pth.tar''" False]
      h5 h6 h7 h8 h9
    by simp
qed

end
